theory Spec2Isabelle
  imports Main
begin

section \<open>Positions and tokens\<close>

text \<open>
  Modelled from the spec: the class \<open>Position\<close> is declared in a header that is not among
  the sources. The spec describes it as a source span
  \<open>(startLine, startCol, endLine, endCol)\<close>; the two-argument constructor used by
  \<open>a.yy\<close> and \<open>ast.cpp\<close> merges a first and a last position into the span that starts
  where the first starts and ends where the last ends.
\<close>

record Position =
  startLine :: nat
  startCol :: nat
  endLine :: nat
  endCol :: nat

definition Position4 :: "nat \<Rightarrow> nat \<Rightarrow> nat \<Rightarrow> nat \<Rightarrow> Position" where
  "Position4 sl sc el ec = \<lparr>startLine = sl, startCol = sc, endLine = el, endCol = ec\<rparr>"

definition Position2 :: "Position \<Rightarrow> Position \<Rightarrow> Position" where
  "Position2 start end' =
     \<lparr>startLine = startLine start, startCol = startCol start,
      endLine = endLine end', endCol = endCol end'\<rparr>"

section \<open>The node taxonomy of \<open>ast.hpp\<close>\<close>

text \<open>
  Each concrete class of \<open>ast.hpp\<close> is a constructor; the first argument is the
  \<open>myPos\<close> field inherited from \<open>ASTNode\<close>. \<open>IDNode\<close> is the only concrete
  \<open>LocNode\<close> of the header, so a \<open>LocNode *\<close> field holds an \<open>IDNode\<close>. Child
  pointers are taken to be non-null except the two the code treats as optional:
  \<open>ReturnStmtNode::myExp\<close> (tested against \<open>nullptr\<close>) and \<open>VarDeclNode::myInit\<close>.
  \<open>CallStmtNode::myCallExp\<close> is a \<open>CallExpNode *\<close>; the model lets the field range over
  all of \<open>ExpNode\<close>, of which \<open>CallExpNode\<close> is one constructor.
\<close>

datatype IDNode = IDNode Position string

datatype TypeNode =
    IntTypeNode Position
  | BoolTypeNode Position
  | ClassTypeNode Position IDNode
  | VoidTypeNode Position
  | ImmutableTypeNode Position TypeNode
  | RefTypeNode Position TypeNode

datatype ExpNode =
    LocNode IDNode
  | CallExpNode Position IDNode "ExpNode list"
  | IntLitNode Position int
  | StrLitNode Position string
  | TrueNode Position
  | FalseNode Position
  | EhNode Position
  | PlusNode Position ExpNode ExpNode
  | MinusNode Position ExpNode ExpNode
  | TimesNode Position ExpNode ExpNode
  | DivideNode Position ExpNode ExpNode
  | AndNode Position ExpNode ExpNode
  | OrNode Position ExpNode ExpNode
  | EqualsNode Position ExpNode ExpNode
  | NotEqualsNode Position ExpNode ExpNode
  | LessNode Position ExpNode ExpNode
  | LessEqNode Position ExpNode ExpNode
  | GreaterNode Position ExpNode ExpNode
  | GreaterEqNode Position ExpNode ExpNode
  | NegNode Position ExpNode
  | NotNode Position ExpNode

datatype FormalDeclNode = FormalDeclNode Position IDNode TypeNode

datatype DeclNode =
    VarDeclNode Position IDNode TypeNode "ExpNode option"
  | ClassDefnNode Position IDNode "DeclNode list"
  | FormalDecl FormalDeclNode
  | FnDeclNode Position IDNode "FormalDeclNode list" TypeNode "StmtNode list"
and StmtNode =
    DeclStmt DeclNode
  | AssignStmtNode Position IDNode ExpNode
  | CallStmtNode Position ExpNode
  | ReturnStmtNode Position "ExpNode option"
  | MaybeStmtNode Position IDNode ExpNode ExpNode
  | FromConsoleStmtNode Position IDNode
  | ToConsoleStmtNode Position ExpNode
  | PostDecStmtNode Position IDNode
  | PostIncStmtNode Position IDNode
  | IfStmtNode Position ExpNode "StmtNode list"
  | IfElseStmtNode Position ExpNode "StmtNode list" "StmtNode list"
  | WhileStmtNode Position ExpNode "StmtNode list"

section \<open>The unparser of \<open>unparse.cpp\<close>\<close>

text \<open>
  Every \<open>unparse\<close> method writes to the stream \<open>out\<close>; the model returns the text
  written. \<open>doIndent\<close> runs its loop body \<open>indent\<close> times, and not at all for a
  negative \<open>indent\<close>.
\<close>

definition doIndent :: "int \<Rightarrow> string" where
  "doIndent indent = replicate (nat indent) (CHR 0x09)"

text \<open>\<open>out << myNum\<close> prints an \<open>int\<close> in decimal, with a minus sign when negative.\<close>

function decimal :: "nat \<Rightarrow> string" where
  "decimal n =
     (if n < 10 then [char_of (48 + n)]
      else decimal (n div 10) @ [char_of (48 + n mod 10)])"
  by pat_completeness auto
termination
  by (relation "measure id") auto

definition show_int :: "int \<Rightarrow> string" where
  "show_int i = (if i < 0 then CHR ''-'' # decimal (nat (- i)) else decimal (nat i))"

fun unparse_IDNode :: "IDNode \<Rightarrow> int \<Rightarrow> string" where
  "unparse_IDNode (IDNode p name) indent = name"

fun unparse_TypeNode :: "TypeNode \<Rightarrow> int \<Rightarrow> string" where
  "unparse_TypeNode (IntTypeNode p) indent = ''int''"
| "unparse_TypeNode (BoolTypeNode p) indent = ''bool''"
| "unparse_TypeNode (ClassTypeNode p myID) indent = doIndent indent @ unparse_IDNode myID 0"
| "unparse_TypeNode (VoidTypeNode p) indent = ''void''"
| "unparse_TypeNode (ImmutableTypeNode p mySub) indent =
     doIndent indent @ ''immutable '' @ unparse_TypeNode mySub 0"
| "unparse_TypeNode (RefTypeNode p mySub) indent =
     doIndent indent @ ''& '' @ unparse_TypeNode mySub 0"

text \<open>
  \<open>unparseNested\<close> is the virtual method of \<open>ExpNode\<close>: the base class wraps the
  rendering in parentheses, and the five literal classes override it to render bare.
  \<open>unparse_args\<close> is the argument loop of \<open>CallExpNode::unparse\<close>, with its
  \<open>firstArg\<close> flag.
\<close>

fun unparse_ExpNode :: "ExpNode \<Rightarrow> int \<Rightarrow> string"
  and unparseNested :: "ExpNode \<Rightarrow> string"
  and unparse_args :: "bool \<Rightarrow> ExpNode list \<Rightarrow> string" where
  "unparse_ExpNode (LocNode i) indent = unparse_IDNode i indent"
| "unparse_ExpNode (CallExpNode p myCallee myArgs) indent =
     doIndent indent @ unparse_IDNode myCallee 0 @ ''('' @ unparse_args True myArgs @ '')''"
| "unparse_ExpNode (IntLitNode p myNum) indent = doIndent indent @ show_int myNum"
| "unparse_ExpNode (StrLitNode p myStr) indent = doIndent indent @ myStr"
| "unparse_ExpNode (TrueNode p) indent = doIndent indent @ ''true''"
| "unparse_ExpNode (FalseNode p) indent = doIndent indent @ ''false''"
| "unparse_ExpNode (EhNode p) indent = doIndent indent @ ''eh?''"
| "unparse_ExpNode (PlusNode p myExp1 myExp2) indent =
     doIndent indent @ unparseNested myExp1 @ '' + '' @ unparseNested myExp2"
| "unparse_ExpNode (MinusNode p myExp1 myExp2) indent =
     doIndent indent @ unparseNested myExp1 @ '' - '' @ unparseNested myExp2"
| "unparse_ExpNode (TimesNode p myExp1 myExp2) indent =
     doIndent indent @ unparseNested myExp1 @ '' * '' @ unparseNested myExp2"
| "unparse_ExpNode (DivideNode p myExp1 myExp2) indent =
     doIndent indent @ unparseNested myExp1 @ '' / '' @ unparseNested myExp2"
| "unparse_ExpNode (AndNode p myExp1 myExp2) indent =
     doIndent indent @ unparseNested myExp1 @ '' and '' @ unparseNested myExp2"
| "unparse_ExpNode (OrNode p myExp1 myExp2) indent =
     doIndent indent @ unparseNested myExp1 @ '' or '' @ unparseNested myExp2"
| "unparse_ExpNode (EqualsNode p myExp1 myExp2) indent =
     doIndent indent @ unparseNested myExp1 @ '' == '' @ unparseNested myExp2"
| "unparse_ExpNode (NotEqualsNode p myExp1 myExp2) indent =
     doIndent indent @ unparseNested myExp1 @ '' != '' @ unparseNested myExp2"
| "unparse_ExpNode (LessNode p myExp1 myExp2) indent =
     doIndent indent @ unparseNested myExp1 @ '' < '' @ unparseNested myExp2"
| "unparse_ExpNode (LessEqNode p myExp1 myExp2) indent =
     doIndent indent @ unparseNested myExp1 @ '' <= '' @ unparseNested myExp2"
| "unparse_ExpNode (GreaterNode p myExp1 myExp2) indent =
     doIndent indent @ unparseNested myExp1 @ '' > '' @ unparseNested myExp2"
| "unparse_ExpNode (GreaterEqNode p myExp1 myExp2) indent =
     doIndent indent @ unparseNested myExp1 @ '' >= '' @ unparseNested myExp2"
| "unparse_ExpNode (NegNode p myExp) indent = doIndent indent @ ''-'' @ unparseNested myExp"
| "unparse_ExpNode (NotNode p myExp) indent = doIndent indent @ ''!'' @ unparseNested myExp"
| "unparseNested (IntLitNode p myNum) = unparse_ExpNode (IntLitNode p myNum) 0"
| "unparseNested (StrLitNode p myStr) = unparse_ExpNode (StrLitNode p myStr) 0"
| "unparseNested (TrueNode p) = unparse_ExpNode (TrueNode p) 0"
| "unparseNested (FalseNode p) = unparse_ExpNode (FalseNode p) 0"
| "unparseNested (EhNode p) = unparse_ExpNode (EhNode p) 0"
| "unparseNested e = ''('' @ unparse_ExpNode e 0 @ '')''"
| "unparse_args firstArg [] = []"
| "unparse_args firstArg (arg # args) =
     (if firstArg then [] else '', '') @ unparse_ExpNode arg 0 @ unparse_args False args"

text \<open>
  Statements and declarations. The body loops of the block-bearing nodes call
  \<open>unparse\<close> on each element in list order; \<open>unparse_stmts\<close> and
  \<open>unparse_members\<close> are those loops, and the callers pass \<open>indent + 1\<close>.
  \<open>unparse_formals\<close> is the loop of \<open>FnDeclNode::unparse\<close> with its
  \<open>firstFormal\<close> flag.
\<close>

fun unparse_FormalDeclNode :: "FormalDeclNode \<Rightarrow> int \<Rightarrow> string" where
  "unparse_FormalDeclNode (FormalDeclNode p myID myType) indent =
     doIndent indent @ unparse_IDNode myID 0 @ '' : '' @ unparse_TypeNode myType 0"

fun unparse_formals :: "bool \<Rightarrow> FormalDeclNode list \<Rightarrow> string" where
  "unparse_formals firstFormal [] = []"
| "unparse_formals firstFormal (formal # formals) =
     (if firstFormal then [] else '', '') @ unparse_FormalDeclNode formal 0
       @ unparse_formals False formals"

fun unparse_DeclNode :: "DeclNode \<Rightarrow> int \<Rightarrow> string"
  and unparse_StmtNode :: "StmtNode \<Rightarrow> int \<Rightarrow> string"
  and unparse_members :: "DeclNode list \<Rightarrow> int \<Rightarrow> string"
  and unparse_stmts :: "StmtNode list \<Rightarrow> int \<Rightarrow> string" where
  "unparse_DeclNode (VarDeclNode p myID myType myInit) indent =
     doIndent indent @ unparse_IDNode myID 0 @ '': '' @ unparse_TypeNode myType 0
       @ [CHR '';'', CHR 0x0A]"
| "unparse_DeclNode (ClassDefnNode p myID myMembers) indent =
     doIndent indent @ unparse_IDNode myID 0 @ '' : custom {'' @ [CHR 0x0A]
       @ unparse_members myMembers (indent + 1) @ ''};'' @ [CHR 0x0A]"
| "unparse_DeclNode (FormalDecl f) indent = unparse_FormalDeclNode f indent"
| "unparse_DeclNode (FnDeclNode p myID myFormals myRetType myBody) indent =
     doIndent indent @ unparse_IDNode myID 0 @ '' : '' @ ''(''
       @ unparse_formals True myFormals @ '') -> '' @ unparse_TypeNode myRetType 0
       @ '' {'' @ [CHR 0x0A] @ unparse_stmts myBody (indent + 1)
       @ doIndent indent @ ''}'' @ [CHR 0x0A]"
| "unparse_StmtNode (DeclStmt d) indent = unparse_DeclNode d indent"
| "unparse_StmtNode (AssignStmtNode p myDst mySrc) indent =
     doIndent indent @ unparse_IDNode myDst 0 @ '' = '' @ unparse_ExpNode mySrc 0
       @ [CHR '';'', CHR 0x0A]"
| "unparse_StmtNode (CallStmtNode p myCallExp) indent =
     (if indent \<noteq> -1 then doIndent indent else []) @ unparse_ExpNode myCallExp 0
       @ (if indent \<noteq> -1 then [CHR '';'', CHR 0x0A] else [])"
| "unparse_StmtNode (ReturnStmtNode p myExp) indent =
     doIndent indent @ ''return''
       @ (case myExp of None \<Rightarrow> [] | Some e \<Rightarrow> '' '' @ unparse_ExpNode e 0)
       @ [CHR '';'', CHR 0x0A]"
| "unparse_StmtNode (MaybeStmtNode p myDst mySrc1 mySrc2) indent =
     (if indent \<noteq> -1 then doIndent indent else []) @ ''maybe '' @ unparse_IDNode myDst 0
       @ '' means '' @ unparse_ExpNode mySrc1 0 @ '' otherwise '' @ unparse_ExpNode mySrc2 0
       @ (if indent \<noteq> -1 then [CHR '';'', CHR 0x0A] else [])"
| "unparse_StmtNode (FromConsoleStmtNode p myDst) indent =
     doIndent indent @ ''fromconsole '' @ unparse_IDNode myDst 0 @ [CHR '';'', CHR 0x0A]"
| "unparse_StmtNode (ToConsoleStmtNode p mySrc) indent =
     doIndent indent @ ''toconsole '' @ unparse_ExpNode mySrc 0 @ [CHR '';'', CHR 0x0A]"
| "unparse_StmtNode (PostDecStmtNode p myLoc) indent =
     (if indent \<noteq> -1 then doIndent indent else []) @ unparse_IDNode myLoc 0 @ ''--''
       @ (if indent \<noteq> -1 then [CHR '';'', CHR 0x0A] else [])"
| "unparse_StmtNode (PostIncStmtNode p myLoc) indent =
     (if indent \<noteq> -1 then doIndent indent else []) @ unparse_IDNode myLoc 0 @ ''++''
       @ (if indent \<noteq> -1 then [CHR '';'', CHR 0x0A] else [])"
| "unparse_StmtNode (IfStmtNode p myCond myBody) indent =
     doIndent indent @ ''if ('' @ unparse_ExpNode myCond 0 @ ''){'' @ [CHR 0x0A]
       @ unparse_stmts myBody (indent + 1) @ doIndent indent @ ''}'' @ [CHR 0x0A]"
| "unparse_StmtNode (IfElseStmtNode p myCond myBodyTrue myBodyFalse) indent =
     doIndent indent @ ''if ('' @ unparse_ExpNode myCond 0 @ ''){'' @ [CHR 0x0A]
       @ unparse_stmts myBodyTrue (indent + 1) @ doIndent indent @ ''} else {'' @ [CHR 0x0A]
       @ unparse_stmts myBodyFalse (indent + 1) @ doIndent indent @ ''}'' @ [CHR 0x0A]"
| "unparse_StmtNode (WhileStmtNode p myCond myBody) indent =
     doIndent indent @ ''while ('' @ unparse_ExpNode myCond 0 @ ''){'' @ [CHR 0x0A]
       @ unparse_stmts myBody (indent + 1) @ doIndent indent @ ''}'' @ [CHR 0x0A]"
| "unparse_members [] indent = []"
| "unparse_members (member # members) indent =
     unparse_DeclNode member indent @ unparse_members members indent"
| "unparse_stmts [] indent = []"
| "unparse_stmts (stmt # stmts) indent =
     unparse_StmtNode stmt indent @ unparse_stmts stmts indent"

section \<open>The grammar of \<open>a.yy\<close>\<close>

text \<open>
  Bison generates an LALR(1) parser from \<open>a.yy\<close>; the generated tables are not among the
  sources. The functions of this section follow the grammar production by production and
  decide as the generated automaton does:
  \<^item> one token of lookahead chooses among the productions of a nonterminal (after
    \<open>name COLON\<close>, the token behind the colon); a left-recursive list (\<open>globals\<close>,
    \<open>stmtList\<close>, \<open>classBody\<close>, \<open>formalList\<close>, \<open>actualList\<close>, \<open>loc\<close>) is a loop that
    goes on while the lookahead continues the list;
  \<^item> the conflicts among the productions of \<open>exp\<close> are settled by the precedence
    declarations;
  \<^item> a state that can reduce does so on every lookahead for which it has no other action
    (the default reduction of the state), so an action can run before the syntax error at
    the lookahead is found. This shows in the two actions that can fail or reach outside
    the parser, those of \<open>varDecl\<close> and of \<open>program\<close>;
  \<^item> the actions are those of \<open>a.yy\<close>.
\<close>

subsection \<open>Tokens\<close>

text \<open>
  The terminals declared with \<open>%token\<close>, under the names the generated header
  \<open>frontend.hh\<close> gives them in \<open>symbol_kind_type\<close>. The three terminals whose tokens
  carry a payload (\<open>ID\<close>, \<open>INTLITERAL\<close>, \<open>STRINGLITERAL\<close>) are constructors of
  \<open>token\<close> below.
\<close>

datatype token_kind =
    S_AND | S_ASSIGN | S_ARROW | S_BOOL | S_COLON | S_COMMA | S_CUSTOM | S_DASH | S_ELSE
  | S_EH | S_EQUALS | S_FALSE | S_FROMCONSOLE | S_GREATER | S_GREATEREQ | S_IF | S_INT
  | S_IMMUTABLE | S_LCURLY | S_LESS | S_LESSEQ | S_LPAREN | S_MAYBE | S_MEANS | S_NOT
  | S_NOTEQUALS | S_OR | S_OTHERWISE | S_CROSS | S_POSTDEC | S_POSTINC | S_RETURN
  | S_RCURLY | S_REF | S_RPAREN | S_SEMICOL | S_SLASH | S_STAR | S_TOCONSOLE | S_TRUE
  | S_VOID | S_WHILE

text \<open>
  Modelled from the spec: the token classes are declared in a header that is not among the
  sources. Every token has a position; an \<open>IDToken\<close> carries a name, an \<open>IntLitToken\<close>
  an integer and a \<open>StrToken\<close> a string. What the scanner hands to the parser is a list
  of tokens, and the end of the list is the \<open>END\<close> token.
\<close>

datatype token =
    Token token_kind Position
  | IDToken Position string
  | IntLitToken Position int
  | StrToken Position string

subsection \<open>Results\<close>

text \<open>
  A syntax error makes the generated parser call \<open>Parser::error\<close> and return 1. A failed
  \<open>assert\<close> aborts the process. A member call through a null pointer is undefined
  behaviour; the model takes it as the end of the process too, so that no result is
  attributed to it.
  \<open>OutOfFuel\<close> is not a behaviour of the program: the recursive functions below carry a
  bound on their recursion depth, and \<open>OutOfFuel\<close> says the bound was too small.
  Theorem \<open>parse_finishes\<close> shows that the bound \<open>parse\<close> passes never is.
\<close>

datatype failure = SyntaxError | AssertionFailure | NullPointerDereference

datatype 'a result = OutOfFuel | Failure failure | Ok 'a

fun andThen :: "'a result \<Rightarrow> ('a \<Rightarrow> 'b result) \<Rightarrow> 'b result" where
  "andThen OutOfFuel f = OutOfFuel"
| "andThen (Failure e) f = Failure e"
| "andThen (Ok x) f = f x"

fun expect :: "token_kind \<Rightarrow> token list \<Rightarrow> (Position \<times> token list) result" where
  "expect k (Token k' p # ts) = (if k' = k then Ok (p, ts) else Failure SyntaxError)"
| "expect k toks = Failure SyntaxError"

definition skip :: "token_kind \<Rightarrow> token list \<Rightarrow> token list result" where
  "skip k toks = andThen (expect k toks) (\<lambda>(p, r). Ok r)"

subsection \<open>Operator precedence\<close>

text \<open>
  The precedence declarations of \<open>a.yy\<close>, lowest first:
  \<^verbatim>\<open>%right ASSIGN\<close>, \<^verbatim>\<open>%left OR\<close>, \<^verbatim>\<open>%left AND\<close>,
  \<^verbatim>\<open>%nonassoc LESS GREATER LESSEQ GREATEREQ EQUALS NOTEQUALS\<close>,
  \<^verbatim>\<open>%left DASH CROSS\<close>, \<^verbatim>\<open>%left STAR SLASH\<close>, \<^verbatim>\<open>%left NOT\<close>.
  Bison gives a rule the precedence of its last terminal and settles a conflict between
  reducing that rule and shifting the lookahead token by comparing the two levels: the
  higher one wins, and on a tie a left-associative level reduces, a right-associative one
  shifts, and a non-associative one is a syntax error. \<open>resolve\<close> is that decision.
\<close>

datatype assoc = Left | Right | Nonassoc

fun prec :: "token_kind \<Rightarrow> nat" where
  "prec k =
     (if k = S_ASSIGN then 1
      else if k = S_OR then 2
      else if k = S_AND then 3
      else if k \<in> {S_LESS, S_GREATER, S_LESSEQ, S_GREATEREQ, S_EQUALS, S_NOTEQUALS} then 4
      else if k \<in> {S_DASH, S_CROSS} then 5
      else if k \<in> {S_STAR, S_SLASH} then 6
      else if k = S_NOT then 7
      else 0)"

fun assoc_of :: "token_kind \<Rightarrow> assoc" where
  "assoc_of k =
     (if k = S_ASSIGN then Right
      else if k \<in> {S_LESS, S_GREATER, S_LESSEQ, S_GREATEREQ, S_EQUALS, S_NOTEQUALS}
      then Nonassoc
      else Left)"

datatype resolution = Shift | Reduce | Error

definition resolve :: "token_kind \<Rightarrow> token_kind \<Rightarrow> resolution" where
  "resolve rule_token lookahead =
     (if prec rule_token < prec lookahead then Shift
      else if prec lookahead < prec rule_token then Reduce
      else (case assoc_of lookahead of
              Left \<Rightarrow> Reduce | Right \<Rightarrow> Shift | Nonassoc \<Rightarrow> Error))"

text \<open>The operators of the twelve productions \<open>exp : exp OP exp\<close>.\<close>

definition is_binop :: "token_kind \<Rightarrow> bool" where
  "is_binop k \<longleftrightarrow>
     k \<in> {S_DASH, S_CROSS, S_STAR, S_SLASH, S_AND, S_OR, S_EQUALS, S_NOTEQUALS,
          S_GREATER, S_GREATEREQ, S_LESS, S_LESSEQ}"

subsection \<open>Names, locations and types\<close>

text \<open>
  The parser is generated with \<open>api.value.type variant\<close>: before an action runs, the value
  of the left-hand side is a value-initialised object of the type \<open>%type\<close> declares for
  it, which for a pointer is the null pointer, and no default \<open>$$ = $1\<close> is applied. A
  production whose action is empty therefore yields a null pointer; the model writes
  \<open>None\<close>. Nonterminals without a \<open>%type\<close> carry no value, and the functions for them
  return only the tokens that remain.

  \<open>name : ID\<close> builds an \<open>IDNode\<close>. Of the productions of \<open>primType\<close>, \<open>datatype\<close>
  and \<open>type\<close> only \<open>INT\<close>, \<open>BOOL\<close> and the two pass-through productions build or
  forward a node.
\<close>

fun parse_name :: "token list \<Rightarrow> (IDNode \<times> token list) result" where
  "parse_name (IDToken p v # ts) = Ok (IDNode p v, ts)"
| "parse_name toks = Failure SyntaxError"

text \<open>
  \<open>loc : name | loc ARROW name\<close>. The left recursion is a loop: after the first name,
  \<open>loc_rest\<close> takes \<open>ARROW name\<close> as long as an \<open>ARROW\<close> follows. No action reads the
  value of a \<open>loc\<close>.
\<close>

fun loc_rest :: "token list \<Rightarrow> token list result" where
  "loc_rest [] = Ok []"
| "loc_rest (t # ts) =
     (case t of
        Token k p \<Rightarrow>
          if k = S_ARROW then
            (case ts of IDToken q v # ts' \<Rightarrow> loc_rest ts' | _ \<Rightarrow> Failure SyntaxError)
          else Ok (t # ts)
      | _ \<Rightarrow> Ok (t # ts))"

definition parse_loc :: "token list \<Rightarrow> token list result" where
  "parse_loc toks = andThen (parse_name toks) (\<lambda>(i, r). loc_rest r)"

fun parse_primType :: "token list \<Rightarrow> (TypeNode option \<times> token list) result" where
  "parse_primType (Token k p # ts) =
     (if k = S_INT then Ok (Some (IntTypeNode p), ts)
      else if k = S_BOOL then Ok (Some (BoolTypeNode p), ts)
      else if k = S_VOID then Ok (None, ts)
      else Failure SyntaxError)"
| "parse_primType toks = Failure SyntaxError"

definition parse_datatype :: "token list \<Rightarrow> (TypeNode option \<times> token list) result" where
  "parse_datatype toks =
     (case toks of
        Token k p # ts \<Rightarrow>
          if k = S_REF then
            (case ts of
               IDToken q v # ts' \<Rightarrow> andThen (parse_name ts) (\<lambda>(i, r). Ok (None, r))
             | _ \<Rightarrow> andThen (parse_primType ts) (\<lambda>(t, r). Ok (None, r)))
          else parse_primType toks
      | IDToken q v # ts \<Rightarrow> andThen (parse_name toks) (\<lambda>(i, r). Ok (None, r))
      | _ \<Rightarrow> Failure SyntaxError)"

definition parse_type :: "token list \<Rightarrow> (TypeNode option \<times> token list) result" where
  "parse_type toks =
     (case toks of
        Token k p # ts \<Rightarrow>
          if k = S_IMMUTABLE then andThen (parse_datatype ts) (\<lambda>(t, r). Ok (None, r))
          else parse_datatype toks
      | _ \<Rightarrow> parse_datatype toks)"

subsection \<open>Expressions\<close>

text \<open>
  The productions of \<open>exp\<close>, \<open>term\<close>, \<open>callExp\<close> and \<open>actualList\<close> all have empty
  actions and no \<open>%type\<close>: parsing an expression builds nothing, and the functions only
  recognise it.

  \<open>parse_exp n pending toks\<close> reads one operand and hands over to \<open>exp_rest\<close>;
  \<open>pending\<close> is the operator of the enclosing rule that waits for this expression as its
  last symbol (\<open>exp OP exp\<close> or \<open>NOT exp\<close>), if there is one. At a binary operator
  \<open>exp_rest\<close> shifts when no rule is pending, and lets \<open>resolve\<close> decide otherwise:
  shift and read the right operand, reduce the pending rule (return to the caller), or fail.
  At any other token the pending rule is reduced. \<open>exp : DASH term\<close> takes a \<open>term\<close>,
  not an \<open>exp\<close>. \<open>parse_actuals\<close> starts after the \<open>LPAREN\<close> of a \<open>callExp\<close>.

  The first argument \<open>n\<close> bounds the depth of the recursion; it is decreased where a call
  goes on with a shorter token list.
\<close>

function parse_exp :: "nat \<Rightarrow> token_kind option \<Rightarrow> token list \<Rightarrow> token list result"
  and exp_rest :: "nat \<Rightarrow> token_kind option \<Rightarrow> token list \<Rightarrow> token list result"
  and parse_term :: "nat \<Rightarrow> token list \<Rightarrow> token list result"
  and parse_actuals :: "nat \<Rightarrow> token list \<Rightarrow> token list result"
  and actualList_rest :: "nat \<Rightarrow> token list \<Rightarrow> token list result" where
  "parse_exp n pending toks =
     andThen
       (case toks of
          Token k p # ts \<Rightarrow>
            if k = S_NOT then
              (case n of 0 \<Rightarrow> OutOfFuel | Suc m \<Rightarrow> parse_exp m (Some S_NOT) ts)
            else if k = S_DASH then parse_term n ts
            else parse_term n toks
        | _ \<Rightarrow> parse_term n toks)
       (exp_rest n pending)"
| "exp_rest n pending toks =
     (case toks of
        Token k p # ts \<Rightarrow>
          if is_binop k then
            (case (case pending of None \<Rightarrow> Shift | Some r \<Rightarrow> resolve r k) of
               Shift \<Rightarrow>
                 (case n of 0 \<Rightarrow> OutOfFuel
                  | Suc m \<Rightarrow> andThen (parse_exp m (Some k) ts) (exp_rest m pending))
             | Reduce \<Rightarrow> Ok toks
             | Error \<Rightarrow> Failure SyntaxError)
          else Ok toks
      | _ \<Rightarrow> Ok toks)"
| "parse_term n toks =
     (case toks of
        IDToken p v # ts \<Rightarrow>
          andThen (loc_rest ts)
            (\<lambda>r. case r of
                   Token k q # ts' \<Rightarrow>
                     if k = S_LPAREN then
                       (case n of 0 \<Rightarrow> OutOfFuel | Suc m \<Rightarrow> parse_actuals m ts')
                     else Ok r
                 | _ \<Rightarrow> Ok r)
      | IntLitToken p i # ts \<Rightarrow> Ok ts
      | StrToken p s # ts \<Rightarrow> Ok ts
      | Token k p # ts \<Rightarrow>
          if k = S_TRUE \<or> k = S_FALSE \<or> k = S_EH then Ok ts
          else if k = S_LPAREN then
            (case n of 0 \<Rightarrow> OutOfFuel
             | Suc m \<Rightarrow> andThen (parse_exp m None ts) (skip S_RPAREN))
          else Failure SyntaxError
      | [] \<Rightarrow> Failure SyntaxError)"
| "parse_actuals n toks =
     (case toks of
        Token k p # ts \<Rightarrow>
          if k = S_RPAREN then Ok ts
          else andThen (parse_exp n None toks) (actualList_rest n)
      | _ \<Rightarrow> andThen (parse_exp n None toks) (actualList_rest n))"
| "actualList_rest n toks =
     (case toks of
        Token k p # ts \<Rightarrow>
          if k = S_COMMA then
            (case n of 0 \<Rightarrow> OutOfFuel
             | Suc m \<Rightarrow> andThen (parse_exp m None ts) (actualList_rest m))
          else if k = S_RPAREN then Ok ts
          else Failure SyntaxError
      | _ \<Rightarrow> Failure SyntaxError)"
  by pat_completeness auto
termination
  by (relation "inv_image (less_than <*lex*> less_than)
        (\<lambda>x. case x of
           Inl (Inl (n, pending, toks)) \<Rightarrow> (n, 2::nat)
         | Inl (Inr (n, pending, toks)) \<Rightarrow> (n, 0)
         | Inr (Inl (n, toks)) \<Rightarrow> (n, 1)
         | Inr (Inr (Inl (n, toks))) \<Rightarrow> (n, 3)
         | Inr (Inr (Inr (n, toks))) \<Rightarrow> (n, 0))")
    auto

subsection \<open>Variable declarations\<close>

text \<open>
  The action of \<open>varDecl : name COLON type\<close> is
  \<^verbatim>\<open>p = new Position($1->pos(), $2->pos()); $$ = new VarDeclNode(p, $1, $3);\<close>
  where \<open>$2\<close> is the \<open>COLON\<close> token. The three-argument constructor is the one of the
  second variant of \<open>ast.hpp\<close>, which asserts that the type and the identifier are not
  null and has no initializer field; the node it builds has no initializer. The
  production with \<open>ASSIGN exp\<close> has an empty action. The state after
  \<open>name COLON type\<close> shifts \<open>ASSIGN\<close> and reduces the first production on every other
  lookahead (its default reduction).
\<close>

fun pos_IDNode :: "IDNode \<Rightarrow> Position" where
  "pos_IDNode (IDNode p name) = p"

fun pos_DeclNode :: "DeclNode \<Rightarrow> Position" where
  "pos_DeclNode (VarDeclNode p myID myType myInit) = p"
| "pos_DeclNode (ClassDefnNode p myID myMembers) = p"
| "pos_DeclNode (FormalDecl (FormalDeclNode p myID myType)) = p"
| "pos_DeclNode (FnDeclNode p myID myFormals myRetType myBody) = p"

definition VarDeclNode_ctor :: "Position \<Rightarrow> IDNode \<Rightarrow> TypeNode option \<Rightarrow> DeclNode result" where
  "VarDeclNode_ctor p inID inType =
     (case inType of
        None \<Rightarrow> Failure AssertionFailure
      | Some t \<Rightarrow> Ok (VarDeclNode p inID t None))"

definition parse_varDecl :: "nat \<Rightarrow> token list \<Rightarrow> (DeclNode option \<times> token list) result" where
  "parse_varDecl n toks =
     andThen (parse_name toks) (\<lambda>(v1, r1).
     andThen (expect S_COLON r1) (\<lambda>(p2, r2).
     andThen (parse_type r2) (\<lambda>(v3, r3).
       case r3 of
         Token k p # ts \<Rightarrow>
           if k = S_ASSIGN then andThen (parse_exp n None ts) (\<lambda>r5. Ok (None, r5))
           else andThen (VarDeclNode_ctor (Position2 (pos_IDNode v1) p2) v1 v3)
                  (\<lambda>d. Ok (Some d, r3))
       | _ \<Rightarrow> andThen (VarDeclNode_ctor (Position2 (pos_IDNode v1) p2) v1 v3)
                (\<lambda>d. Ok (Some d, r3)))))"

subsection \<open>Statements\<close>

text \<open>
  All productions of \<open>stmt\<close>, \<open>blockStmt\<close> and \<open>stmtList\<close> have empty actions. A
  statement that starts with an identifier is a \<open>varDecl\<close> when a \<open>COLON\<close> follows the
  name, and otherwise a \<open>loc\<close> followed by \<open>ASSIGN exp\<close>, the argument list of a call,
  \<open>POSTDEC\<close> or \<open>POSTINC\<close>. After \<open>RETURN\<close> the parser shifts a token that can start
  an expression and reduces \<open>stmt : RETURN\<close> otherwise.
\<close>

definition starts_exp :: "token list \<Rightarrow> bool" where
  "starts_exp toks =
     (case toks of
        [] \<Rightarrow> False
      | Token k p # ts \<Rightarrow> k \<in> {S_NOT, S_DASH, S_TRUE, S_FALSE, S_EH, S_LPAREN}
      | _ \<Rightarrow> True)"

definition parse_stmt :: "nat \<Rightarrow> token list \<Rightarrow> token list result" where
  "parse_stmt n toks =
     (case toks of
        IDToken p v # ts \<Rightarrow>
          (case ts of
             Token k q # ts' \<Rightarrow>
               if k = S_COLON then andThen (parse_varDecl n toks) (\<lambda>(d, r). Ok r)
               else
                 andThen (loc_rest ts) (\<lambda>r.
                   case r of
                     Token k' q' # r' \<Rightarrow>
                       if k' = S_ASSIGN then parse_exp n None r'
                       else if k' = S_LPAREN then parse_actuals n r'
                       else if k' = S_POSTDEC \<or> k' = S_POSTINC then Ok r'
                       else Failure SyntaxError
                   | _ \<Rightarrow> Failure SyntaxError)
           | _ \<Rightarrow> Failure SyntaxError)
      | Token k p # ts \<Rightarrow>
          if k = S_TOCONSOLE then parse_exp n None ts
          else if k = S_FROMCONSOLE then parse_loc ts
          else if k = S_MAYBE then
            andThen (parse_exp n None ts) (\<lambda>r.
            andThen (skip S_MEANS r) (\<lambda>r.
            andThen (parse_exp n None r) (\<lambda>r.
            andThen (skip S_OTHERWISE r) (\<lambda>r.
              parse_exp n None r))))
          else if k = S_RETURN then (if starts_exp ts then parse_exp n None ts else Ok ts)
          else Failure SyntaxError
      | _ \<Rightarrow> Failure SyntaxError)"

definition starts_stmt :: "token list \<Rightarrow> bool" where
  "starts_stmt toks =
     (case toks of
        IDToken p v # ts \<Rightarrow> True
      | Token k p # ts \<Rightarrow> k \<in> {S_TOCONSOLE, S_FROMCONSOLE, S_MAYBE, S_RETURN}
      | _ \<Rightarrow> False)"

definition starts_blockStmt :: "token list \<Rightarrow> bool" where
  "starts_blockStmt toks =
     (case toks of Token k p # ts \<Rightarrow> k \<in> {S_WHILE, S_IF} | _ \<Rightarrow> False)"

text \<open>
  \<open>stmtList : stmtList stmt SEMICOL | stmtList blockStmt\<close> is a loop that goes on while
  the lookahead starts a statement or a block statement. \<open>parse_block\<close> is the
  \<open>LCURLY stmtList RCURLY\<close> that the three productions of \<open>blockStmt\<close> share.
\<close>

function parse_stmtList :: "nat \<Rightarrow> token list \<Rightarrow> token list result"
  and parse_blockStmt :: "nat \<Rightarrow> token list \<Rightarrow> token list result"
  and parse_block :: "nat \<Rightarrow> token list \<Rightarrow> token list result" where
  "parse_stmtList n toks =
     (if starts_stmt toks then
        andThen (parse_stmt n toks) (\<lambda>r.
        andThen (skip S_SEMICOL r) (\<lambda>r.
          case n of 0 \<Rightarrow> OutOfFuel | Suc m \<Rightarrow> parse_stmtList m r))
      else if starts_blockStmt toks then
        andThen (parse_blockStmt n toks) (\<lambda>r.
          case n of 0 \<Rightarrow> OutOfFuel | Suc m \<Rightarrow> parse_stmtList m r)
      else Ok toks)"
| "parse_blockStmt n toks =
     (case toks of
        Token k p # ts \<Rightarrow>
          if k = S_WHILE then
            andThen (skip S_LPAREN ts) (\<lambda>r.
            andThen (parse_exp n None r) (\<lambda>r.
            andThen (skip S_RPAREN r) (\<lambda>r.
              parse_block n r)))
          else if k = S_IF then
            andThen (skip S_LPAREN ts) (\<lambda>r.
            andThen (parse_exp n None r) (\<lambda>r.
            andThen (skip S_RPAREN r) (\<lambda>r.
            andThen (parse_block n r) (\<lambda>r.
              case r of
                Token k' p' # r' \<Rightarrow> if k' = S_ELSE then parse_block n r' else Ok r
              | _ \<Rightarrow> Ok r))))
          else Failure SyntaxError
      | _ \<Rightarrow> Failure SyntaxError)"
| "parse_block n toks =
     andThen (skip S_LCURLY toks) (\<lambda>r.
       case n of 0 \<Rightarrow> OutOfFuel
       | Suc m \<Rightarrow> andThen (parse_stmtList m r) (skip S_RCURLY))"
  by pat_completeness auto
termination
  by (relation "inv_image (less_than <*lex*> less_than)
        (\<lambda>x. case x of
           Inl (n, toks) \<Rightarrow> (n, 2::nat)
         | Inr (Inl (n, toks)) \<Rightarrow> (n, 1)
         | Inr (Inr (n, toks)) \<Rightarrow> (n, 0))")
    auto

subsection \<open>Functions, classes and global declarations\<close>

text \<open>
  \<open>formalDecl\<close>, \<open>formalList\<close>, \<open>maybeFormals\<close>, \<open>fnDecl\<close>, \<open>classBody\<close> and
  \<open>classTypeDecl\<close> have empty actions. After \<open>name COLON\<close> a declaration is a class
  when \<open>CUSTOM\<close> follows, a function when \<open>LPAREN\<close> follows, and a \<open>varDecl\<close>
  otherwise; \<open>after_colon\<close> is that lookahead. \<open>decl : varDecl SEMICOL\<close> forwards the
  node of the \<open>varDecl\<close>; the other two productions of \<open>decl\<close> have empty actions.
\<close>

definition parse_formalDecl :: "token list \<Rightarrow> token list result" where
  "parse_formalDecl toks =
     andThen (parse_name toks) (\<lambda>(v1, r1).
     andThen (skip S_COLON r1) (\<lambda>r2.
     andThen (parse_type r2) (\<lambda>(v3, r3). Ok r3)))"

fun formalList_rest :: "nat \<Rightarrow> token list \<Rightarrow> token list result" where
  "formalList_rest n toks =
     (case toks of
        Token k p # ts \<Rightarrow>
          if k = S_COMMA then
            andThen (parse_formalDecl ts) (\<lambda>r.
              case n of 0 \<Rightarrow> OutOfFuel | Suc m \<Rightarrow> formalList_rest m r)
          else Ok toks
      | _ \<Rightarrow> Ok toks)"

definition parse_maybeFormals :: "nat \<Rightarrow> token list \<Rightarrow> token list result" where
  "parse_maybeFormals n toks =
     (case toks of
        IDToken p v # ts \<Rightarrow> andThen (parse_formalDecl toks) (formalList_rest n)
      | _ \<Rightarrow> Ok toks)"

definition parse_fnDecl :: "nat \<Rightarrow> token list \<Rightarrow> token list result" where
  "parse_fnDecl n toks =
     andThen (parse_name toks) (\<lambda>(v1, r).
     andThen (skip S_COLON r) (\<lambda>r.
     andThen (skip S_LPAREN r) (\<lambda>r.
     andThen (parse_maybeFormals n r) (\<lambda>r.
     andThen (skip S_RPAREN r) (\<lambda>r.
     andThen (skip S_ARROW r) (\<lambda>r.
     andThen (parse_type r) (\<lambda>(v7, r).
     andThen (skip S_LCURLY r) (\<lambda>r.
     andThen (parse_stmtList n r) (\<lambda>r.
       skip S_RCURLY r)))))))))"

definition after_colon :: "token list \<Rightarrow> token_kind option" where
  "after_colon toks =
     (case toks of
        t1 # Token k2 p2 # Token k3 p3 # ts \<Rightarrow> if k2 = S_COLON then Some k3 else None
      | _ \<Rightarrow> None)"

fun parse_classBody :: "nat \<Rightarrow> token list \<Rightarrow> token list result" where
  "parse_classBody n toks =
     (case toks of
        IDToken p v # ts \<Rightarrow>
          if after_colon toks = Some S_LPAREN then
            andThen (parse_fnDecl n toks) (\<lambda>r.
              case n of 0 \<Rightarrow> OutOfFuel | Suc m \<Rightarrow> parse_classBody m r)
          else
            andThen (parse_varDecl n toks) (\<lambda>(d, r).
            andThen (skip S_SEMICOL r) (\<lambda>r.
              case n of 0 \<Rightarrow> OutOfFuel | Suc m \<Rightarrow> parse_classBody m r))
      | _ \<Rightarrow> Ok toks)"

definition parse_classTypeDecl :: "nat \<Rightarrow> token list \<Rightarrow> token list result" where
  "parse_classTypeDecl n toks =
     andThen (parse_name toks) (\<lambda>(v1, r).
     andThen (skip S_COLON r) (\<lambda>r.
     andThen (skip S_CUSTOM r) (\<lambda>r.
     andThen (skip S_LCURLY r) (\<lambda>r.
     andThen (parse_classBody n r) (\<lambda>r.
     andThen (skip S_RCURLY r) (\<lambda>r.
       skip S_SEMICOL r))))))"

definition parse_decl :: "nat \<Rightarrow> token list \<Rightarrow> (DeclNode option \<times> token list) result" where
  "parse_decl n toks =
     (if after_colon toks = Some S_CUSTOM then
        andThen (parse_classTypeDecl n toks) (\<lambda>r. Ok (None, r))
      else if after_colon toks = Some S_LPAREN then
        andThen (parse_fnDecl n toks) (\<lambda>r. Ok (None, r))
      else
        andThen (parse_varDecl n toks) (\<lambda>(v1, r).
        andThen (skip S_SEMICOL r) (\<lambda>r. Ok (v1, r))))"

text \<open>
  \<open>globals : globals decl | epsilon\<close> starts from an empty list and appends each
  declaration with \<open>push_back\<close>. The state after \<open>globals\<close> shifts an \<open>ID\<close> (the only
  token a \<open>decl\<close> starts with) and reduces \<open>program : globals\<close> otherwise.
\<close>

fun parse_globals ::
  "nat \<Rightarrow> DeclNode option list \<Rightarrow> token list \<Rightarrow> (DeclNode option list \<times> token list) result" where
  "parse_globals n globals toks =
     (case toks of
        IDToken p v # ts \<Rightarrow>
          andThen (parse_decl n toks) (\<lambda>(declNode, r).
            case n of 0 \<Rightarrow> OutOfFuel
            | Suc m \<Rightarrow> parse_globals m (globals @ [declNode]) r)
      | _ \<Rightarrow> Ok (globals, toks))"

subsection \<open>The program node and the parser's entry point\<close>

text \<open>
  The constructor of \<open>ast.cpp\<close>: the position is \<open>Position(0,0,0,0)\<close>, replaced for a
  non-empty list by the merge of the positions of the first and the last declaration.
  Calling \<open>pos()\<close> through a null first or last element is the null-pointer failure.
\<close>

record ProgramNode =
  myPos :: Position
  myGlobals :: "DeclNode option list"

definition ProgramNode_ctor :: "DeclNode option list \<Rightarrow> ProgramNode result" where
  "ProgramNode_ctor globalsIn =
     (if globalsIn \<noteq> [] then
        (case (hd globalsIn, last globalsIn) of
           (Some front, Some back) \<Rightarrow>
             Ok \<lparr>myPos = Position2 (pos_DeclNode front) (pos_DeclNode back),
                 myGlobals = globalsIn\<rparr>
         | _ \<Rightarrow> Failure NullPointerDereference)
      else Ok \<lparr>myPos = Position4 0 0 0 0, myGlobals = globalsIn\<rparr>)"

text \<open>
  \<open>Parser::parse\<close> returns 0 when the input is accepted and 1 after a syntax error, for
  which it calls \<open>Parser::error\<close> once; \<open>cerr\<close> is what that method writes to
  \<open>std::cerr\<close> (the message it writes to \<open>std::cout\<close> is composed by the skeleton and
  is not modelled). \<open>root\<close> is the output parameter \<open>*root\<close>, \<open>None\<close> as long as the
  parser has not assigned it. The action of \<open>program : globals\<close> constructs the
  \<open>ProgramNode\<close> and assigns \<open>*root\<close>; it runs when the lookahead after the
  declarations is not an \<open>ID\<close>, before the parser looks for the end of the input.
\<close>

datatype outcome = Return int | Abort failure | Unfinished

record parse_result =
  outcome :: outcome
  root :: "ProgramNode option"
  cerr :: string

definition parse :: "token list \<Rightarrow> parse_result" where
  "parse toks =
     (case parse_globals (length toks) [] toks of
        OutOfFuel \<Rightarrow> \<lparr>outcome = Unfinished, root = None, cerr = []\<rparr>
      | Failure e \<Rightarrow>
          if e = SyntaxError then
            \<lparr>outcome = Return 1, root = None, cerr = ''syntax error'' @ [CHR 0x0A]\<rparr>
          else \<lparr>outcome = Abort e, root = None, cerr = []\<rparr>
      | Ok (globals, rest) \<Rightarrow>
          (case ProgramNode_ctor globals of
             Ok program \<Rightarrow>
               if rest = [] then \<lparr>outcome = Return 0, root = Some program, cerr = []\<rparr>
               else \<lparr>outcome = Return 1, root = Some program,
                      cerr = ''syntax error'' @ [CHR 0x0A]\<rparr>
           | Failure e \<Rightarrow> \<lparr>outcome = Abort e, root = None, cerr = []\<rparr>
           | OutOfFuel \<Rightarrow> \<lparr>outcome = Unfinished, root = None, cerr = []\<rparr>))"

text \<open>
  \<open>ProgramNode::unparse\<close> calls the virtual \<open>unparse\<close> of every global declaration; a
  null element ends the process.
\<close>

fun unparse_globals :: "DeclNode option list \<Rightarrow> int \<Rightarrow> string result" where
  "unparse_globals [] indent = Ok []"
| "unparse_globals (global # globals) indent =
     (case global of
        None \<Rightarrow> Failure NullPointerDereference
      | Some d \<Rightarrow> andThen (unparse_globals globals indent) (\<lambda>s. Ok (unparse_DeclNode d indent @ s)))"

definition unparse_ProgramNode :: "ProgramNode \<Rightarrow> int \<Rightarrow> string result" where
  "unparse_ProgramNode prog indent = unparse_globals (myGlobals prog) indent"

subsection \<open>Vocabulary for the claims\<close>

text \<open>
  The six operators of the \<^verbatim>\<open>%nonassoc\<close> line, and the tokens an operand is made of
  outside parentheses: identifiers, literals, \<open>true\<close>, \<open>false\<close>, \<open>eh?\<close>, the arrow
  of a member access, and the unary and arithmetic operators. \<open>operands d toks\<close> says
  that \<open>toks\<close>, read with \<open>d\<close> parentheses open, consists of operand tokens and of
  groups in parentheses (argument lists, parenthesised expressions) with any tokens inside
  them, and closes exactly the \<open>d\<close> parentheses: between two operators, \<open>operands 0\<close>
  says that nothing but operand tokens stands between them outside parentheses.
\<close>

definition is_relop :: "token_kind \<Rightarrow> bool" where
  "is_relop k \<longleftrightarrow> k \<in> {S_LESS, S_GREATER, S_LESSEQ, S_GREATEREQ, S_EQUALS, S_NOTEQUALS}"

fun relop_token :: "token \<Rightarrow> bool" where
  "relop_token (Token k p) = is_relop k"
| "relop_token t = False"

fun operand_token :: "token \<Rightarrow> bool" where
  "operand_token (Token k p) =
     (k \<in> {S_TRUE, S_FALSE, S_EH, S_NOT, S_DASH, S_CROSS, S_STAR, S_SLASH, S_ARROW})"
| "operand_token t = True"

fun open_paren :: "token \<Rightarrow> bool" where
  "open_paren (Token k p) = (k = S_LPAREN)"
| "open_paren t = False"

fun close_paren :: "token \<Rightarrow> bool" where
  "close_paren (Token k p) = (k = S_RPAREN)"
| "close_paren t = False"





text \<open>
  The declarations for which the actions of \<open>a.yy\<close> build a node are the variable
  declarations \<^verbatim>\<open>name : int ;\<close> and \<^verbatim>\<open>name : bool ;\<close>. A \<open>plain_decl\<close> is one of
  them, given by the position and the text of the name, the position of the colon, the
  type with its position, and the position of the semicolon; \<open>decl_tokens\<close> are its
  tokens and \<open>decl_node\<close> is the node the action of \<open>varDecl\<close> builds for it.
  \<open>program_node\<close> is the \<open>ProgramNode\<close> that the constructor of \<open>ast.cpp\<close> builds
  from the nodes of a list of such declarations.
\<close>

datatype plain_type = IntType | BoolType

datatype plain_decl = PlainDecl Position string Position plain_type Position Position

fun decl_tokens :: "plain_decl \<Rightarrow> token list" where
  "decl_tokens (PlainDecl pn x pc ty pt ps) =
     [IDToken pn x, Token S_COLON pc,
      Token (case ty of IntType \<Rightarrow> S_INT | BoolType \<Rightarrow> S_BOOL) pt, Token S_SEMICOL ps]"

fun decl_node :: "plain_decl \<Rightarrow> DeclNode" where
  "decl_node (PlainDecl pn x pc ty pt ps) =
     VarDeclNode (Position2 pn pc) (IDNode pn x)
       (case ty of IntType \<Rightarrow> IntTypeNode pt | BoolType \<Rightarrow> BoolTypeNode pt) None"

definition program_tokens :: "plain_decl list \<Rightarrow> token list" where
  "program_tokens ds = concat (map decl_tokens ds)"

definition program_node :: "plain_decl list \<Rightarrow> ProgramNode" where
  "program_node ds =
     \<lparr>myPos = (if ds = [] then Position4 0 0 0 0
               else Position2 (pos_DeclNode (decl_node (hd ds))) (pos_DeclNode (decl_node (last ds)))),
      myGlobals = map (\<lambda>d. Some (decl_node d)) ds\<rparr>"

fun starts_with_ID :: "token list \<Rightarrow> bool" where
  "starts_with_ID (IDToken p v # ts) = True"
| "starts_with_ID toks = False"

fun starts_with :: "token_kind \<Rightarrow> token list \<Rightarrow> bool" where
  "starts_with k (Token k' p # ts) = (k' = k)"
| "starts_with k toks = False"

subsection \<open>Following a run of the parser through the tokens\<close>

text \<open>
  \<open>scan st toks r\<close> reads the tokens of \<open>toks\<close> down to its suffix \<open>r\<close>. Its state
  is a flag for the current nesting level of parentheses and the flags of the enclosing
  levels. The flag of a level says that a relational operator has been read at this level
  and, since then, only operand tokens and groups in parentheses. An opening parenthesis
  starts a level with the flag cleared, and a closing one returns to the enclosing level
  with the flag it had. The result is \<open>None\<close> when a relational operator is read while
  the flag of its level is set, that is when the tokens read contain a chain of two
  relational operators, and also when \<open>r\<close> is not a suffix of \<open>toks\<close>; otherwise it is
  the state at \<open>r\<close>. \<open>clean toks r\<close> says that the scan succeeds from every state.

  \<open>level\<close> is the precedence level of the pending rule, and \<open>at_hi_op\<close> says that the
  next token is a binary operator of the relational level or of a higher one.
\<close>

fun step :: "bool \<times> bool list \<Rightarrow> token \<Rightarrow> bool \<times> bool list" where
  "step (b, stk) t =
     (if open_paren t then (False, b # stk)
      else if close_paren t then (case stk of [] \<Rightarrow> (False, []) | b' # stk' \<Rightarrow> (b', stk'))
      else (relop_token t \<or> operand_token t \<and> b, stk))"

fun scan :: "bool \<times> bool list \<Rightarrow> token list \<Rightarrow> token list \<Rightarrow> (bool \<times> bool list) option" where
  "scan st [] r = (if r = [] then Some st else None)"
| "scan st (t # ts) r =
     (if t # ts = r then Some st
      else if fst st \<and> relop_token t then None
      else scan (step st t) ts r)"

definition clean :: "token list \<Rightarrow> token list \<Rightarrow> bool" where
  "clean toks r \<longleftrightarrow> (\<forall>st. \<exists>st'. scan st toks r = Some st')"



text \<open>
  The equations of the recursive functions rewrite any call, so they are taken out of the
  simplifier's default rules and named where a proof evaluates a call.
\<close>

declare parse_exp.simps [simp del] exp_rest.simps [simp del] parse_term.simps [simp del]
  parse_actuals.simps [simp del] actualList_rest.simps [simp del]
  parse_stmtList.simps [simp del] parse_blockStmt.simps [simp del] parse_block.simps [simp del]
  formalList_rest.simps [simp del] parse_classBody.simps [simp del] parse_globals.simps [simp del]

section \<open>The recursion bound suffices\<close>

text \<open>
  Every function returns a suffix no longer than its input, and runs out of fuel only when
  the fuel is less than the number of tokens; \<open>parse\<close> passes exactly that number.
\<close>

lemma andThen_eq_Ok: "(andThen r f = Ok y) = (\<exists>x. r = Ok x \<and> f x = Ok y)"
  by (cases r) auto

lemma andThen_eq_OutOfFuel:
  "(andThen r f = OutOfFuel) = (r = OutOfFuel \<or> (\<exists>x. r = Ok x \<and> f x = OutOfFuel))"
  by (cases r) auto

lemma expect_length: "expect k toks = Ok (p, r) \<Longrightarrow> length toks = Suc (length r)"
  by (induction k toks rule: expect.induct) (auto split: if_splits)

lemma expect_fuel: "expect k toks \<noteq> OutOfFuel"
  by (induction k toks rule: expect.induct) auto

lemma skip_length: "skip k toks = Ok r \<Longrightarrow> length toks = Suc (length r)"
  by (auto simp: skip_def andThen_eq_Ok dest: expect_length)

lemma skip_fuel: "skip k toks \<noteq> OutOfFuel"
  by (auto simp: skip_def andThen_eq_OutOfFuel expect_fuel)

lemma parse_name_length: "parse_name toks = Ok (i, r) \<Longrightarrow> length toks = Suc (length r)"
  by (induction toks rule: parse_name.induct) auto

lemma parse_name_fuel: "parse_name toks \<noteq> OutOfFuel"
  by (induction toks rule: parse_name.induct) auto

lemma loc_rest_length: "loc_rest toks = Ok r \<Longrightarrow> length r \<le> length toks"
  by (induction toks arbitrary: r rule: loc_rest.induct)
     (fastforce split: token.splits if_splits list.splits)+

lemma loc_rest_fuel: "loc_rest toks \<noteq> OutOfFuel"
  by (induction toks rule: loc_rest.induct)
     (auto split: token.splits if_splits list.splits)

lemma andThen_OkE:
  "andThen r f = Ok y \<Longrightarrow> (\<And>x. r = Ok x \<Longrightarrow> f x = Ok y \<Longrightarrow> P) \<Longrightarrow> P"
  by (cases r) auto

lemma exp_group_length_aux:
  "(\<forall>pd toks r. parse_exp n pd toks = Ok r \<longrightarrow> length r \<le> length toks)
   \<and> (\<forall>pd toks r. exp_rest n pd toks = Ok r \<longrightarrow> length r \<le> length toks)
   \<and> (\<forall>toks r. parse_term n toks = Ok r \<longrightarrow> length r \<le> length toks)
   \<and> (\<forall>toks r. parse_actuals n toks = Ok r \<longrightarrow> length r \<le> length toks)
   \<and> (\<forall>toks r. actualList_rest n toks = Ok r \<longrightarrow> length r \<le> length toks)"
proof (induction n)
  case 0
  have t: "\<And>toks r. parse_term (0) toks = Ok r \<Longrightarrow> length r \<le> length toks"
    apply (subst (asm) parse_term.simps)
    apply (auto elim!: andThen_OkE split: list.splits token.splits if_splits
        dest!: loc_rest_length skip_length)
    done
  have r: "\<And>pd toks r. exp_rest (0) pd toks = Ok r \<Longrightarrow> length r \<le> length toks"
    apply (subst (asm) exp_rest.simps)
    apply (auto elim!: andThen_OkE split: list.splits token.splits if_splits
        resolution.splits)
    done
  have x: "\<And>pd toks r. parse_exp (0) pd toks = Ok r \<Longrightarrow> length r \<le> length toks"
    apply (subst (asm) parse_exp.simps)
    apply (auto elim!: andThen_OkE split: list.splits token.splits if_splits
        dest!: t r)
    done
  have r': "\<And>toks r. actualList_rest (0) toks = Ok r \<Longrightarrow> length r \<le> length toks"
    apply (subst (asm) actualList_rest.simps)
    apply (auto elim!: andThen_OkE split: list.splits token.splits if_splits)
    done
  have a': "\<And>toks r. parse_actuals (0) toks = Ok r \<Longrightarrow> length r \<le> length toks"
    apply (subst (asm) parse_actuals.simps)
    apply (auto elim!: andThen_OkE split: list.splits token.splits if_splits
        dest!: x r')
    done
  from t r x r' a' show ?case by blast
next
  case (Suc m)
  have e: "\<And>pd toks r. parse_exp m pd toks = Ok r \<Longrightarrow> length r \<le> length toks"
    using Suc by blast
  have er: "\<And>pd toks r. exp_rest m pd toks = Ok r \<Longrightarrow> length r \<le> length toks"
    using Suc by blast
  have a: "\<And>toks r. parse_actuals m toks = Ok r \<Longrightarrow> length r \<le> length toks"
    using Suc by blast
  have ar: "\<And>toks r. actualList_rest m toks = Ok r \<Longrightarrow> length r \<le> length toks"
    using Suc by blast
  have t: "\<And>toks r. parse_term (Suc m) toks = Ok r \<Longrightarrow> length r \<le> length toks"
    apply (subst (asm) parse_term.simps)
    apply (auto elim!: andThen_OkE split: list.splits token.splits if_splits
        dest!: e er a ar loc_rest_length skip_length)
    done
  have r: "\<And>pd toks r. exp_rest (Suc m) pd toks = Ok r \<Longrightarrow> length r \<le> length toks"
    apply (subst (asm) exp_rest.simps)
    apply (auto elim!: andThen_OkE split: list.splits token.splits if_splits
        resolution.splits dest!: e er a ar)
    done
  have x: "\<And>pd toks r. parse_exp (Suc m) pd toks = Ok r \<Longrightarrow> length r \<le> length toks"
    apply (subst (asm) parse_exp.simps)
    apply (auto elim!: andThen_OkE split: list.splits token.splits if_splits
        dest!: e er a ar t r)
    done
  have r': "\<And>toks r. actualList_rest (Suc m) toks = Ok r \<Longrightarrow> length r \<le> length toks"
    apply (subst (asm) actualList_rest.simps)
    apply (auto elim!: andThen_OkE split: list.splits token.splits if_splits
        dest!: e er a ar)
    done
  have a': "\<And>toks r. parse_actuals (Suc m) toks = Ok r \<Longrightarrow> length r \<le> length toks"
    apply (subst (asm) parse_actuals.simps)
    apply (auto elim!: andThen_OkE split: list.splits token.splits if_splits
        dest!: x r')
    done
  from t r x r' a' show ?case by blast
qed

lemma exp_length: "parse_exp n pd toks = Ok r \<Longrightarrow> length r \<le> length toks"
  using exp_group_length_aux by blast

lemma exp_rest_length: "exp_rest n pd toks = Ok r \<Longrightarrow> length r \<le> length toks"
  using exp_group_length_aux by blast

lemma term_length: "parse_term n toks = Ok r \<Longrightarrow> length r \<le> length toks"
  using exp_group_length_aux by blast

lemma actuals_length: "parse_actuals n toks = Ok r \<Longrightarrow> length r \<le> length toks"
  using exp_group_length_aux by blast

lemma andThen_OutOfFuelE:
  "andThen r f = OutOfFuel \<Longrightarrow> (r = OutOfFuel \<Longrightarrow> P)
     \<Longrightarrow> (\<And>x. r = Ok x \<Longrightarrow> f x = OutOfFuel \<Longrightarrow> P) \<Longrightarrow> P"
  by (cases r) auto

lemma exp_group_fuel_aux:
  "(\<forall>pd toks. parse_exp n pd toks = OutOfFuel \<longrightarrow> n < length toks)
   \<and> (\<forall>pd toks. exp_rest n pd toks = OutOfFuel \<longrightarrow> n < length toks)
   \<and> (\<forall>toks. parse_term n toks = OutOfFuel \<longrightarrow> n < length toks)
   \<and> (\<forall>toks. parse_actuals n toks = OutOfFuel \<longrightarrow> n < length toks)
   \<and> (\<forall>toks. actualList_rest n toks = OutOfFuel \<longrightarrow> n < length toks)"
proof (induction n)
  case 0
  have t: "\<And>toks. parse_term (0) toks = OutOfFuel \<Longrightarrow> 0 < length toks"
    apply (subst (asm) parse_term.simps)
    apply (auto elim!: andThen_OutOfFuelE andThen_OkE split: list.splits token.splits if_splits
        simp: loc_rest_fuel skip_fuel
        dest!: loc_rest_length skip_length)
    done
  have r: "\<And>pd toks. exp_rest (0) pd toks = OutOfFuel \<Longrightarrow> 0 < length toks"
    apply (subst (asm) exp_rest.simps)
    apply (auto elim!: andThen_OutOfFuelE andThen_OkE split: list.splits token.splits if_splits
        resolution.splits dest!: exp_length)
    done
  have x: "\<And>pd toks. parse_exp (0) pd toks = OutOfFuel \<Longrightarrow> 0 < length toks"
    apply (subst (asm) parse_exp.simps)
    apply (auto elim!: andThen_OutOfFuelE andThen_OkE split: list.splits token.splits if_splits
        dest!: t r exp_length term_length)
    done
  have r': "\<And>toks. actualList_rest (0) toks = OutOfFuel \<Longrightarrow> 0 < length toks"
    apply (subst (asm) actualList_rest.simps)
    apply (auto elim!: andThen_OutOfFuelE andThen_OkE split: list.splits token.splits if_splits
        dest!: exp_length)
    done
  have a': "\<And>toks. parse_actuals (0) toks = OutOfFuel \<Longrightarrow> 0 < length toks"
    apply (subst (asm) parse_actuals.simps)
    apply (auto elim!: andThen_OutOfFuelE andThen_OkE split: list.splits token.splits if_splits
        dest!: x r' exp_length)
    done
  from t r x r' a' show ?case by blast
next
  case (Suc m)
  have e: "\<And>pd toks. parse_exp m pd toks = OutOfFuel \<Longrightarrow> m < length toks"
    using Suc by blast
  have er: "\<And>pd toks. exp_rest m pd toks = OutOfFuel \<Longrightarrow> m < length toks"
    using Suc by blast
  have a: "\<And>toks. parse_actuals m toks = OutOfFuel \<Longrightarrow> m < length toks"
    using Suc by blast
  have ar: "\<And>toks. actualList_rest m toks = OutOfFuel \<Longrightarrow> m < length toks"
    using Suc by blast
  have t: "\<And>toks. parse_term (Suc m) toks = OutOfFuel \<Longrightarrow> Suc m < length toks"
    apply (subst (asm) parse_term.simps)
    apply (auto elim!: andThen_OutOfFuelE andThen_OkE split: list.splits token.splits if_splits
        simp: loc_rest_fuel skip_fuel
        dest!: e er a ar loc_rest_length skip_length)
    done
  have r: "\<And>pd toks. exp_rest (Suc m) pd toks = OutOfFuel \<Longrightarrow> Suc m < length toks"
    apply (subst (asm) exp_rest.simps)
    apply (auto elim!: andThen_OutOfFuelE andThen_OkE split: list.splits token.splits if_splits
        resolution.splits dest!: e er a ar exp_length)
    done
  have x: "\<And>pd toks. parse_exp (Suc m) pd toks = OutOfFuel \<Longrightarrow> Suc m < length toks"
    apply (subst (asm) parse_exp.simps)
    apply (auto elim!: andThen_OutOfFuelE andThen_OkE split: list.splits token.splits if_splits
        dest!: e er a ar t r exp_length term_length)
    done
  have r': "\<And>toks. actualList_rest (Suc m) toks = OutOfFuel \<Longrightarrow> Suc m < length toks"
    apply (subst (asm) actualList_rest.simps)
    apply (auto elim!: andThen_OutOfFuelE andThen_OkE split: list.splits token.splits if_splits
        dest!: e er a ar exp_length)
    done
  have a': "\<And>toks. parse_actuals (Suc m) toks = OutOfFuel \<Longrightarrow> Suc m < length toks"
    apply (subst (asm) parse_actuals.simps)
    apply (auto elim!: andThen_OutOfFuelE andThen_OkE split: list.splits token.splits if_splits
        dest!: x r' exp_length)
    done
  from t r x r' a' show ?case by blast
qed

lemma exp_fuel: "parse_exp n pd toks = OutOfFuel \<Longrightarrow> n < length toks"
  using exp_group_fuel_aux by blast

lemma actuals_fuel: "parse_actuals n toks = OutOfFuel \<Longrightarrow> n < length toks"
  using exp_group_fuel_aux by blast

lemma primType_length: "parse_primType toks = Ok (t, r) \<Longrightarrow> length toks = Suc (length r)"
  by (induction toks rule: parse_primType.induct) (auto split: if_splits)

lemma primType_fuel: "parse_primType toks \<noteq> OutOfFuel"
  by (induction toks rule: parse_primType.induct) auto

lemma datatype_length: "parse_datatype toks = Ok (t, r) \<Longrightarrow> length r < length toks"
  by (auto simp: parse_datatype_def elim!: andThen_OkE split: list.splits token.splits if_splits
      dest!: primType_length parse_name_length)

lemma datatype_fuel: "parse_datatype toks \<noteq> OutOfFuel"
  by (auto simp: parse_datatype_def primType_fuel parse_name_fuel elim!: andThen_OutOfFuelE
      split: list.splits token.splits if_splits)

lemma type_length: "parse_type toks = Ok (t, r) \<Longrightarrow> length r < length toks"
  by (auto simp: parse_type_def elim!: andThen_OkE split: list.splits token.splits if_splits
      dest!: datatype_length)

lemma type_fuel: "parse_type toks \<noteq> OutOfFuel"
  by (auto simp: parse_type_def datatype_fuel elim!: andThen_OutOfFuelE
      split: list.splits token.splits if_splits)

lemma VarDeclNode_ctor_fuel: "VarDeclNode_ctor p i t \<noteq> OutOfFuel"
  by (auto simp: VarDeclNode_ctor_def split: option.splits)

lemma varDecl_length: "parse_varDecl n toks = Ok (d, r) \<Longrightarrow> length r < length toks"
  by (auto simp: parse_varDecl_def elim!: andThen_OkE split: list.splits token.splits if_splits
      dest!: parse_name_length expect_length type_length exp_length)

lemma varDecl_fuel: "parse_varDecl n toks = OutOfFuel \<Longrightarrow> n < length toks"
  by (auto simp: parse_varDecl_def parse_name_fuel expect_fuel type_fuel VarDeclNode_ctor_fuel
      elim!: andThen_OutOfFuelE andThen_OkE split: list.splits token.splits if_splits
      dest!: parse_name_length expect_length type_length exp_fuel)

lemma parse_loc_length: "parse_loc toks = Ok r \<Longrightarrow> length r < length toks"
  by (auto simp: parse_loc_def elim!: andThen_OkE dest!: parse_name_length loc_rest_length)

lemma parse_loc_fuel: "parse_loc toks \<noteq> OutOfFuel"
  by (auto simp: parse_loc_def parse_name_fuel loc_rest_fuel elim!: andThen_OutOfFuelE)

lemma stmt_length: "parse_stmt n toks = Ok r \<Longrightarrow> length r \<le> length toks"
  by (auto simp: parse_stmt_def elim!: andThen_OkE split: list.splits token.splits if_splits
      dest!: varDecl_length loc_rest_length exp_length actuals_length skip_length
        parse_loc_length)

lemma stmt_fuel: "parse_stmt n toks = OutOfFuel \<Longrightarrow> n < length toks"
  by (auto simp: parse_stmt_def loc_rest_fuel skip_fuel parse_loc_fuel
      elim!: andThen_OutOfFuelE andThen_OkE split: list.splits token.splits if_splits
      dest!: varDecl_fuel loc_rest_length exp_length exp_fuel actuals_fuel skip_length)

lemma stmt_group_length_aux:
  "(\<forall>toks r. parse_stmtList n toks = Ok r \<longrightarrow> length r \<le> length toks)
   \<and> (\<forall>toks r. parse_blockStmt n toks = Ok r \<longrightarrow> length r < length toks)
   \<and> (\<forall>toks r. parse_block n toks = Ok r \<longrightarrow> length r < length toks)"
proof (induction n)
  case 0
  have b: "\<And>toks r. parse_block (0) toks = Ok r \<Longrightarrow> length r < length toks"
    apply (subst (asm) parse_block.simps)
    apply (auto elim!: andThen_OkE split: list.splits token.splits if_splits
        dest!: skip_length)
    done
  have bs: "\<And>toks r. parse_blockStmt (0) toks = Ok r \<Longrightarrow> length r < length toks"
    apply (subst (asm) parse_blockStmt.simps)
    apply (auto elim!: andThen_OkE split: list.splits token.splits if_splits
        dest!: b skip_length exp_length)
    done
  have sl: "\<And>toks r. parse_stmtList (0) toks = Ok r \<Longrightarrow> length r \<le> length toks"
    apply (subst (asm) parse_stmtList.simps)
    apply (auto elim!: andThen_OkE split: list.splits token.splits if_splits
        dest!: bs skip_length stmt_length)
    done
  from b bs sl show ?case by blast
next
  case (Suc m)
  have l: "\<And>toks r. parse_stmtList m toks = Ok r \<Longrightarrow> length r \<le> length toks"
    using Suc by blast
  have b: "\<And>toks r. parse_block (Suc m) toks = Ok r \<Longrightarrow> length r < length toks"
    apply (subst (asm) parse_block.simps)
    apply (auto elim!: andThen_OkE split: list.splits token.splits if_splits
        dest!: l skip_length)
    done
  have bs: "\<And>toks r. parse_blockStmt (Suc m) toks = Ok r \<Longrightarrow> length r < length toks"
    apply (subst (asm) parse_blockStmt.simps)
    apply (auto elim!: andThen_OkE split: list.splits token.splits if_splits
        dest!: b skip_length exp_length)
    done
  have sl: "\<And>toks r. parse_stmtList (Suc m) toks = Ok r \<Longrightarrow> length r \<le> length toks"
    apply (subst (asm) parse_stmtList.simps)
    apply (auto elim!: andThen_OkE split: list.splits token.splits if_splits
        dest!: l bs skip_length stmt_length)
    done
  from b bs sl show ?case by blast
qed

lemma stmtList_length: "parse_stmtList n toks = Ok r \<Longrightarrow> length r \<le> length toks"
  using stmt_group_length_aux by blast

lemma blockStmt_length: "parse_blockStmt n toks = Ok r \<Longrightarrow> length r < length toks"
  using stmt_group_length_aux by blast

lemma block_length: "parse_block n toks = Ok r \<Longrightarrow> length r < length toks"
  using stmt_group_length_aux by blast

lemma stmt_group_fuel_aux:
  "(\<forall>toks. parse_stmtList n toks = OutOfFuel \<longrightarrow> n < length toks)
   \<and> (\<forall>toks. parse_blockStmt n toks = OutOfFuel \<longrightarrow> n < length toks)
   \<and> (\<forall>toks. parse_block n toks = OutOfFuel \<longrightarrow> n < length toks)"
proof (induction n)
  case 0
  have b: "\<And>toks. parse_block (0) toks = OutOfFuel \<Longrightarrow> 0 < length toks"
    apply (subst (asm) parse_block.simps)
    apply (auto simp: skip_fuel elim!: andThen_OutOfFuelE andThen_OkE
        split: list.splits token.splits if_splits
        dest!: skip_length stmtList_length)
    done
  have bs: "\<And>toks. parse_blockStmt (0) toks = OutOfFuel \<Longrightarrow> 0 < length toks"
    apply (subst (asm) parse_blockStmt.simps)
    apply (auto simp: skip_fuel elim!: andThen_OutOfFuelE andThen_OkE
        split: list.splits token.splits if_splits
        dest!: b skip_length exp_length exp_fuel block_length)
    done
  have sl: "\<And>toks. parse_stmtList (0) toks = OutOfFuel \<Longrightarrow> 0 < length toks"
    apply (subst (asm) parse_stmtList.simps)
    apply (auto simp: skip_fuel elim!: andThen_OutOfFuelE andThen_OkE
        split: list.splits token.splits if_splits
        dest!: bs skip_length stmt_length stmt_fuel blockStmt_length)
    done
  from b bs sl show ?case by blast
next
  case (Suc m)
  have l: "\<And>toks. parse_stmtList m toks = OutOfFuel \<Longrightarrow> m < length toks"
    using Suc by blast
  have b: "\<And>toks. parse_block (Suc m) toks = OutOfFuel \<Longrightarrow> Suc m < length toks"
    apply (subst (asm) parse_block.simps)
    apply (auto simp: skip_fuel elim!: andThen_OutOfFuelE andThen_OkE
        split: list.splits token.splits if_splits
        dest!: l skip_length stmtList_length)
    done
  have bs: "\<And>toks. parse_blockStmt (Suc m) toks = OutOfFuel \<Longrightarrow> Suc m < length toks"
    apply (subst (asm) parse_blockStmt.simps)
    apply (auto simp: skip_fuel elim!: andThen_OutOfFuelE andThen_OkE
        split: list.splits token.splits if_splits
        dest!: b skip_length exp_length exp_fuel block_length)
    done
  have sl: "\<And>toks. parse_stmtList (Suc m) toks = OutOfFuel \<Longrightarrow> Suc m < length toks"
    apply (subst (asm) parse_stmtList.simps)
    apply (auto simp: skip_fuel elim!: andThen_OutOfFuelE andThen_OkE
        split: list.splits token.splits if_splits
        dest!: l bs skip_length stmt_length stmt_fuel blockStmt_length)
    done
  from b bs sl show ?case by blast
qed

lemma stmtList_fuel: "parse_stmtList n toks = OutOfFuel \<Longrightarrow> n < length toks"
  using stmt_group_fuel_aux by blast

lemma formalDecl_length: "parse_formalDecl toks = Ok r \<Longrightarrow> length r < length toks"
  by (auto simp: parse_formalDecl_def elim!: andThen_OkE
      dest!: parse_name_length skip_length type_length)

lemma formalDecl_fuel: "parse_formalDecl toks \<noteq> OutOfFuel"
  by (auto simp: parse_formalDecl_def parse_name_fuel skip_fuel type_fuel
      elim!: andThen_OutOfFuelE)

lemma formalList_rest_length: "formalList_rest n toks = Ok r \<Longrightarrow> length r \<le> length toks"
proof (induction n arbitrary: toks r)
  case 0
  then show ?case
    apply (subst (asm) formalList_rest.simps)
    apply (auto elim!: andThen_OkE split: list.splits token.splits if_splits)
    done
next
  case (Suc m)
  from Suc.prems show ?case
    apply (subst (asm) formalList_rest.simps)
    apply (auto elim!: andThen_OkE split: list.splits token.splits if_splits
        dest!: Suc.IH formalDecl_length)
    done
qed

lemma formalList_rest_fuel: "formalList_rest n toks = OutOfFuel \<Longrightarrow> n < length toks"
proof (induction n arbitrary: toks)
  case 0
  then show ?case
    apply (subst (asm) formalList_rest.simps)
    apply (auto simp: formalDecl_fuel elim!: andThen_OutOfFuelE andThen_OkE
        split: list.splits token.splits if_splits)
    done
next
  case (Suc m)
  from Suc.prems show ?case
    apply (subst (asm) formalList_rest.simps)
    apply (auto simp: formalDecl_fuel elim!: andThen_OutOfFuelE andThen_OkE
        split: list.splits token.splits if_splits
        dest!: Suc.IH formalDecl_length)
    done
qed

lemma maybeFormals_length: "parse_maybeFormals n toks = Ok r \<Longrightarrow> length r \<le> length toks"
  by (auto simp: parse_maybeFormals_def elim!: andThen_OkE split: list.splits token.splits
      dest!: formalDecl_length formalList_rest_length)

lemma maybeFormals_fuel: "parse_maybeFormals n toks = OutOfFuel \<Longrightarrow> n < length toks"
  by (auto simp: parse_maybeFormals_def formalDecl_fuel elim!: andThen_OutOfFuelE andThen_OkE
      split: list.splits token.splits dest!: formalDecl_length formalList_rest_fuel)

lemma fnDecl_length: "parse_fnDecl n toks = Ok r \<Longrightarrow> length r < length toks"
  by (auto simp: parse_fnDecl_def elim!: andThen_OkE
      dest!: parse_name_length skip_length type_length maybeFormals_length stmtList_length)

lemma fnDecl_fuel: "parse_fnDecl n toks = OutOfFuel \<Longrightarrow> n < length toks"
  by (auto simp: parse_fnDecl_def parse_name_fuel skip_fuel type_fuel
      elim!: andThen_OutOfFuelE andThen_OkE
      dest!: parse_name_length skip_length type_length maybeFormals_length maybeFormals_fuel
        stmtList_fuel)

lemma classBody_length: "parse_classBody n toks = Ok r \<Longrightarrow> length r \<le> length toks"
proof (induction n arbitrary: toks r)
  case 0
  then show ?case
    apply (subst (asm) parse_classBody.simps)
    apply (auto elim!: andThen_OkE split: list.splits token.splits if_splits)
    done
next
  case (Suc m)
  from Suc.prems show ?case
    apply (subst (asm) parse_classBody.simps)
    apply (auto elim!: andThen_OkE split: list.splits token.splits if_splits
        dest!: Suc.IH fnDecl_length varDecl_length skip_length)
    done
qed

lemma classBody_fuel: "parse_classBody n toks = OutOfFuel \<Longrightarrow> n < length toks"
proof (induction n arbitrary: toks)
  case 0
  then show ?case
    apply (subst (asm) parse_classBody.simps)
    apply (auto simp: skip_fuel elim!: andThen_OutOfFuelE andThen_OkE
        split: list.splits token.splits if_splits
        dest!: fnDecl_fuel varDecl_fuel)
    done
next
  case (Suc m)
  from Suc.prems show ?case
    apply (subst (asm) parse_classBody.simps)
    apply (auto simp: skip_fuel elim!: andThen_OutOfFuelE andThen_OkE
        split: list.splits token.splits if_splits
        dest!: Suc.IH fnDecl_length varDecl_length skip_length fnDecl_fuel varDecl_fuel)
    done
qed

lemma classTypeDecl_length: "parse_classTypeDecl n toks = Ok r \<Longrightarrow> length r < length toks"
  by (auto simp: parse_classTypeDecl_def elim!: andThen_OkE
      dest!: parse_name_length skip_length classBody_length)

lemma classTypeDecl_fuel: "parse_classTypeDecl n toks = OutOfFuel \<Longrightarrow> n < length toks"
  by (auto simp: parse_classTypeDecl_def parse_name_fuel skip_fuel
      elim!: andThen_OutOfFuelE andThen_OkE
      dest!: parse_name_length skip_length classBody_fuel)

lemma decl_length: "parse_decl n toks = Ok (d, r) \<Longrightarrow> length r < length toks"
  by (auto simp: parse_decl_def elim!: andThen_OkE split: if_splits
      dest!: classTypeDecl_length fnDecl_length varDecl_length skip_length)

lemma decl_fuel: "parse_decl n toks = OutOfFuel \<Longrightarrow> n < length toks"
  by (auto simp: parse_decl_def skip_fuel elim!: andThen_OutOfFuelE andThen_OkE split: if_splits
      dest!: classTypeDecl_fuel fnDecl_fuel varDecl_fuel)

lemma globals_fuel: "parse_globals n gs toks = OutOfFuel \<Longrightarrow> n < length toks"
proof (induction n arbitrary: gs toks)
  case 0
  then show ?case
    apply (subst (asm) parse_globals.simps)
    apply (auto elim!: andThen_OutOfFuelE andThen_OkE
        split: list.splits token.splits if_splits
        dest!: decl_fuel)
    done
next
  case (Suc m)
  from Suc.prems show ?case
    apply (subst (asm) parse_globals.simps)
    apply (auto elim!: andThen_OutOfFuelE andThen_OkE
        split: list.splits token.splits if_splits
        dest!: Suc.IH decl_length decl_fuel)
    done
qed

lemma ProgramNode_ctor_fuel: "ProgramNode_ctor gs \<noteq> OutOfFuel"
  by (auto simp: ProgramNode_ctor_def split: option.splits)

theorem parse_finishes: "outcome (parse toks) \<noteq> Unfinished"
  using globals_fuel [of "length toks" "[]" toks] ProgramNode_ctor_fuel
  by (auto simp: parse_def split: result.splits)

section \<open>Evaluating the parser\<close>

text \<open>
  \<open>parser_simps\<close> are the equations a proof needs to run the parser on given tokens.
\<close>

lemmas parser_simps = parse_def parse_decl_def parse_varDecl_def parse_type_def parse_datatype_def
  VarDeclNode_ctor_def ProgramNode_ctor_def skip_def after_colon_def Position2_def Position4_def
  parse_fnDecl_def parse_classTypeDecl_def parse_maybeFormals_def parse_formalDecl_def
  parse_stmt_def starts_stmt_def starts_blockStmt_def starts_exp_def parse_loc_def
  is_binop_def resolve_def
  parse_exp.simps exp_rest.simps parse_term.simps parse_actuals.simps actualList_rest.simps
  parse_stmtList.simps parse_blockStmt.simps parse_block.simps formalList_rest.simps
  parse_classBody.simps parse_globals.simps

section \<open>What the actions build\<close>

text \<open>
  Whatever the input, every element of the list of globals that the parser hands to
  \<open>ProgramNode\<close> is a null pointer or a \<open>VarDeclNode\<close> without initializer: no action
  builds an expression, a statement, a function or a class.
\<close>

lemma varDecl_value:
  "parse_varDecl n toks = Ok (Some d, r) \<Longrightarrow> \<exists>p i t. d = VarDeclNode p i t None"
  by (auto simp: parse_varDecl_def VarDeclNode_ctor_def elim!: andThen_OkE
      split: list.splits token.splits if_splits option.splits)

lemma decl_value:
  "parse_decl n toks = Ok (Some d, r) \<Longrightarrow> \<exists>p i t. d = VarDeclNode p i t None"
  by (auto simp: parse_decl_def elim!: andThen_OkE split: if_splits dest: varDecl_value)

lemma globals_values:
  "parse_globals n gs toks = Ok (gs', r) \<Longrightarrow>
     \<forall>g \<in> set gs. g = None \<or> (\<exists>p i t. g = Some (VarDeclNode p i t None)) \<Longrightarrow>
     \<forall>g \<in> set gs'. g = None \<or> (\<exists>p i t. g = Some (VarDeclNode p i t None))"
proof (induction n arbitrary: gs toks)
  case 0
  then show ?case
    apply (subst (asm) parse_globals.simps)
    apply (auto elim!: andThen_OkE split: list.splits token.splits)
    done
next
  case (Suc m)
  from Suc.prems(1) show ?case
    apply (subst (asm) parse_globals.simps)
    apply (auto elim!: andThen_OkE split: list.splits token.splits simp: Suc.prems(2))
    subgoal for a b c d e
      using Suc.IH [of "gs @ [d]" e] Suc.prems(2) decl_value [of "Suc m" toks _ e]
      apply (cases d)
       apply auto
      done
    done
qed

theorem parse_builds_no_expression:
  assumes "root (parse toks) = Some prog" and "g \<in> set (myGlobals prog)"
  shows "g = None \<or> (\<exists>p i t. g = Some (VarDeclNode p i t None))"
proof -
  from assms(1) obtain rest where "parse_globals (length toks) [] toks = Ok (myGlobals prog, rest)"
    by (auto simp: parse_def ProgramNode_ctor_def
        split: result.splits if_splits option.splits)
  from globals_values [OF this] assms(2) show ?thesis by simp
qed

section \<open>Programs of plain variable declarations\<close>

text \<open>
  The parser reads a sequence of declarations \<^verbatim>\<open>name : int ;\<close> and
  \<^verbatim>\<open>name : bool ;\<close> whatever follows it, and appends their nodes to the list of
  globals. If what follows does not start with an identifier, the rule \<open>program : globals\<close>
  is reduced there: the \<open>ProgramNode\<close> is built and assigned, and the input is accepted
  if nothing follows and rejected otherwise. If what follows is a declaration in which the
  parser finds a syntax error, the rule is never reduced.
\<close>

lemma plain_decl:
  "parse_decl n (decl_tokens d @ rest) = Ok (Some (decl_node d), rest)"
  by (cases d; cases rest)
     (auto simp: parse_decl_def after_colon_def parse_varDecl_def parse_type_def
        parse_datatype_def VarDeclNode_ctor_def skip_def split: plain_type.splits)

lemma plain_globals:
  "length ds \<le> n \<Longrightarrow>
     parse_globals n acc (program_tokens ds @ rest)
       = parse_globals (n - length ds) (acc @ map (\<lambda>d. Some (decl_node d)) ds) rest"
proof (induction ds arbitrary: n acc)
  case Nil
  then show ?case by (simp add: program_tokens_def)
next
  case (Cons d ds)
  then obtain m where n: "n = Suc m" and m: "length ds \<le> m" by (cases n) auto
  obtain pn x pc ty pt ps where d: "d = PlainDecl pn x pc ty pt ps" by (cases d)
  have "parse_globals (Suc m) acc (decl_tokens d @ program_tokens ds @ rest)
      = parse_globals m (acc @ [Some (decl_node d)]) (program_tokens ds @ rest)"
    using plain_decl [of "Suc m" d "program_tokens ds @ rest"]
    by (subst parse_globals.simps) (simp add: d)
  with Cons.IH [OF m, of "acc @ [Some (decl_node d)]"] show ?case
    by (simp add: n program_tokens_def)
qed

lemma globals_stop: "\<not> starts_with_ID rest \<Longrightarrow> parse_globals n acc rest = Ok (acc, rest)"
  by (cases rest rule: starts_with_ID.cases) (auto simp: parse_globals.simps)

lemma decl_tokens_length: "length (decl_tokens d) = 4"
  by (cases d) simp

lemma program_tokens_length: "length (program_tokens ds) = 4 * length ds"
  by (induction ds) (auto simp: program_tokens_def decl_tokens_length)

lemma ctor_plain: "ProgramNode_ctor (map (\<lambda>d. Some (decl_node d)) ds) = Ok (program_node ds)"
  by (cases ds) (auto simp: ProgramNode_ctor_def program_node_def hd_map last_map)

lemma parse_plain:
  assumes "\<not> starts_with_ID rest"
  shows "parse (program_tokens ds @ rest) =
     \<lparr>outcome = Return (if rest = [] then 0 else 1), root = Some (program_node ds),
      cerr = (if rest = [] then [] else ''syntax error'' @ [CHR 0x0A])\<rparr>"
proof -
  have "parse_globals (length (program_tokens ds @ rest)) [] (program_tokens ds @ rest)
      = Ok (map (\<lambda>d. Some (decl_node d)) ds, rest)"
    using assms by (simp add: plain_globals program_tokens_length globals_stop)
  then show ?thesis
    by (simp add: parse_def ctor_plain)
qed

lemma parse_plain_then_failure:
  assumes "\<And>m acc. length D \<le> Suc m \<Longrightarrow> parse_globals (Suc m) acc D = Failure SyntaxError"
    and "D \<noteq> []"
  shows "parse (program_tokens ds @ D) =
     \<lparr>outcome = Return 1, root = None, cerr = ''syntax error'' @ [CHR 0x0A]\<rparr>"
proof -
  from assms(2) obtain m where m: "3 * length ds + length D = Suc m" by (cases D) auto
  have "parse_globals (length (program_tokens ds @ D)) [] (program_tokens ds @ D)
      = parse_globals (3 * length ds + length D) (map (\<lambda>d. Some (decl_node d)) ds) D"
    by (simp add: plain_globals program_tokens_length)
  also have "\<dots> = Failure SyntaxError"
    unfolding m using assms(1) [of m] m by simp
  finally show ?thesis by (simp add: parse_def)
qed

lemma decl_without_colon:
  "\<not> starts_with S_COLON rest \<Longrightarrow> parse_globals (Suc m) acc (IDToken p x # rest) = Failure SyntaxError"
  by (subst parse_globals.simps, cases "(S_COLON, rest)" rule: starts_with.cases)
     (auto simp: parse_decl_def after_colon_def parse_varDecl_def
        split: list.splits token.splits)

section \<open>Chains of relational operators\<close>

text \<open>
  No run of the parser reads a chain of two relational operators, that is two of them at
  the same nesting level of parentheses with only operand tokens and groups in parentheses
  between them: whenever a function of the parser returns, the scan of the tokens it has
  read succeeds. For the functions of the expression grammar this is an invariant of the
  flag of \<open>scan\<close> against the pending rule: with the flag set the pending rule is of the
  relational level or of a higher one; a call with a pending rule of the relational level
  or below never returns in front of a binary operator of the relational level or above;
  a call with a pending rule of a higher level does not set the flag; and every call
  returns at the nesting level at which it started.
\<close>

lemma scan_refl [simp]: "scan st r r = Some st"
  by (cases r) auto

lemma scan_length: "scan st toks r = Some s \<Longrightarrow> length r \<le> length toks"
proof (induction toks arbitrary: st)
  case Nil
  then show ?case by (auto split: if_splits)
next
  case (Cons t ts)
  show ?case
  proof (cases "t # ts = r")
    case True
    then show ?thesis by auto
  next
    case False
    with Cons.prems have "scan (step st t) ts r = Some s"
      by (auto split: if_splits)
    from Cons.IH [OF this] show ?thesis by simp
  qed
qed


lemma scan_step:
  "scan s0 T (t # ts) = Some st \<Longrightarrow> \<not> (fst st \<and> relop_token t) \<Longrightarrow>
     scan s0 T ts = Some (step st t)"
proof (induction T arbitrary: s0)
  case Nil
  then show ?case by (simp split: if_splits)
next
  case (Cons u us)
  show ?case
  proof (cases "u # us = t # ts")
    case True
    with Cons.prems show ?thesis by auto
  next
    case False
    with Cons.prems have ne: "u # us \<noteq> ts"
      by (auto dest!: scan_length split: if_splits)
    from Cons.prems False have nb: "\<not> (fst s0 \<and> relop_token u)"
      and rec: "scan (step s0 u) us (t # ts) = Some st"
      by (auto split: if_splits)
    from Cons.IH [OF rec Cons.prems(2)] ne nb show ?thesis by simp
  qed
qed

lemma scan_trans:
  "scan st toks r1 = Some s1 \<Longrightarrow> scan s1 r1 r2 = Some s2 \<Longrightarrow> scan st toks r2 = Some s2"
proof (induction toks arbitrary: st)
  case Nil
  then show ?case by (auto split: if_splits)
next
  case (Cons t ts)
  show ?case
  proof (cases "t # ts = r1")
    case True
    with Cons.prems show ?thesis by auto
  next
    case False
    with Cons.prems(1) have nb: "\<not> (fst st \<and> relop_token t)"
      and rec: "scan (step st t) ts r1 = Some s1"
      by (auto split: if_splits)
    from rec Cons.prems(2) have "length r2 \<le> length ts"
      by (auto dest!: scan_length)
    then have "t # ts \<noteq> r2" by auto
    with Cons.IH [OF rec Cons.prems(2)] nb show ?thesis by simp
  qed
qed


lemma scan_step_plain:
  "scan s0 T (t # ts) = Some (b, stk) \<Longrightarrow> \<not> relop_token t \<Longrightarrow> \<not> open_paren t \<Longrightarrow>
     \<not> close_paren t \<Longrightarrow> scan s0 T ts = Some (operand_token t \<and> b, stk)"
  using scan_step [of s0 T t ts "(b, stk)"] by simp




lemma loc_rest_scan:
  "loc_rest toks = Ok r \<Longrightarrow> scan s0 T toks = Some (b, stk) \<Longrightarrow> scan s0 T r = Some (b, stk)"
proof (induction toks arbitrary: r rule: loc_rest.induct)
  case 1
  then show ?case by simp
next
  case (2 t ts)
  show ?case
  proof (cases "\<exists>p q v ts'. t = Token S_ARROW p \<and> ts = IDToken q v # ts'")
    case True
    then obtain p q v ts' where t: "t = Token S_ARROW p" and ts: "ts = IDToken q v # ts'" by blast
    from "2.prems"(2) have "scan s0 T ts = Some (b, stk)"
      using scan_step_plain [of s0 T t ts b stk] by (simp add: t is_relop_def)
    then have "scan s0 T ts' = Some (b, stk)"
      using scan_step_plain [of s0 T "IDToken q v" ts' b stk] by (simp add: ts)
    moreover from "2.prems"(1) have "loc_rest ts' = Ok r" by (simp add: t ts)
    ultimately show ?thesis using "2.IH" t ts by blast
  next
    case False
    with "2.prems" show ?thesis
      by (auto split: token.splits if_splits list.splits)
  qed
qed


lemma clean_refl: "clean r r"
  unfolding clean_def by simp


lemma clean_trans: "clean a b \<Longrightarrow> clean b c \<Longrightarrow> clean a c"
  unfolding clean_def by (meson scan_trans)





lemma loc_rest_cleanI: "loc_rest toks = Ok r1 \<Longrightarrow> clean r1 r \<Longrightarrow> clean toks r"
proof -
  assume l: "loc_rest toks = Ok r1" and c: "clean r1 r"
  have "\<exists>st'. scan st toks r1 = Some st'" for st
    using loc_rest_scan [OF l, of st toks "fst st" "snd st"] by simp
  then have "clean toks r1" unfolding clean_def by blast
  from this c show ?thesis by (rule clean_trans)
qed







lemma loc_rest_clean: "loc_rest toks = Ok r \<Longrightarrow> clean toks r"
  using loc_rest_cleanI clean_refl by blast






































lemma globals_stops_at:
  "parse_globals n gs toks = Ok (gs', r) \<Longrightarrow> \<not> starts_with_ID r"
proof (induction n arbitrary: gs toks rule: less_induct)
  case (less n)
  have IH: "\<not> starts_with_ID r" if "parse_globals m gs toks = Ok (gs', r)" "m < n" for m gs toks
    using less.IH [OF that(2,1)] .
  from less.prems show ?case
    apply (subst (asm) parse_globals.simps)
    apply (auto elim!: andThen_OkE split: list.splits token.splits nat.splits dest: IH)
    done
qed


section \<open>Properties of the unparser\<close>

text \<open>
  Claim C8. For each of the statement kinds \<open>CallStmt\<close>, \<open>PostInc\<close>, \<open>PostDec\<close> and
  \<open>Maybe\<close>: with the sentinel indentation \<open>-1\<close> the output is the bare core text (no
  tabs in front, no semicolon and newline behind), and with any indentation \<open>indent \<ge> 0\<close>
  the output is \<open>indent\<close> tabs, then that same core text, then a semicolon and a newline.
\<close>

theorem C8_inline_rendering:
  assumes "0 \<le> indent"
  shows "unparse_StmtNode (CallStmtNode p c) (-1) = unparse_ExpNode c 0
       \<and> unparse_StmtNode (CallStmtNode p c) indent =
           replicate (nat indent) (CHR 0x09) @ unparse_StmtNode (CallStmtNode p c) (-1)
             @ [CHR '';'', CHR 0x0A]
       \<and> unparse_StmtNode (PostIncStmtNode p l) (-1) = unparse_IDNode l 0 @ ''++''
       \<and> unparse_StmtNode (PostIncStmtNode p l) indent =
           replicate (nat indent) (CHR 0x09) @ unparse_StmtNode (PostIncStmtNode p l) (-1)
             @ [CHR '';'', CHR 0x0A]
       \<and> unparse_StmtNode (PostDecStmtNode p l) (-1) = unparse_IDNode l 0 @ ''--''
       \<and> unparse_StmtNode (PostDecStmtNode p l) indent =
           replicate (nat indent) (CHR 0x09) @ unparse_StmtNode (PostDecStmtNode p l) (-1)
             @ [CHR '';'', CHR 0x0A]
       \<and> unparse_StmtNode (MaybeStmtNode p l e1 e2) (-1) =
           ''maybe '' @ unparse_IDNode l 0 @ '' means '' @ unparse_ExpNode e1 0
             @ '' otherwise '' @ unparse_ExpNode e2 0
       \<and> unparse_StmtNode (MaybeStmtNode p l e1 e2) indent =
           replicate (nat indent) (CHR 0x09) @ unparse_StmtNode (MaybeStmtNode p l e1 e2) (-1)
             @ [CHR '';'', CHR 0x0A]"
  using assms by (simp add: doIndent_def)

theorem C8_inline_rendering_witness:
  "(0::int) \<le> 2
   \<and> unparse_StmtNode (PostIncStmtNode (Position4 1 1 1 4) (IDNode (Position4 1 1 1 2) ''x'')) (-1)
       = ''x++''
   \<and> unparse_StmtNode (PostIncStmtNode (Position4 1 1 1 4) (IDNode (Position4 1 1 1 2) ''x'')) 2
       = [CHR 0x09, CHR 0x09] @ ''x++'' @ [CHR '';'', CHR 0x0A]"
  using C8_inline_rendering [of 2 "Position4 1 1 1 4" "LocNode (IDNode (Position4 1 1 1 2) ''x'')"
      "IDNode (Position4 1 1 1 2) ''x''" "LocNode (IDNode (Position4 1 1 1 2) ''x'')"
      "LocNode (IDNode (Position4 1 1 1 2) ''x'')"]
  by (simp add: numeral_2_eq_2)

text \<open>
  Claim C9. A binary or unary expression rendered as an operand (through
  \<open>unparseNested\<close>) is wrapped in parentheses; a binary node renders as the nested
  rendering of its left operand, the operator spelling between single spaces, and the
  nested rendering of its right operand (after the \<open>indent\<close> tabs of \<open>doIndent\<close>, none
  at the indentation \<open>0\<close> every caller passes); the five literals render bare as operands.
\<close>

theorem C9_nested_parentheses:
  "unparseNested (PlusNode p a b) = ''('' @ unparse_ExpNode (PlusNode p a b) 0 @ '')''
   \<and> unparseNested (MinusNode p a b) = ''('' @ unparse_ExpNode (MinusNode p a b) 0 @ '')''
   \<and> unparseNested (TimesNode p a b) = ''('' @ unparse_ExpNode (TimesNode p a b) 0 @ '')''
   \<and> unparseNested (DivideNode p a b) = ''('' @ unparse_ExpNode (DivideNode p a b) 0 @ '')''
   \<and> unparseNested (AndNode p a b) = ''('' @ unparse_ExpNode (AndNode p a b) 0 @ '')''
   \<and> unparseNested (OrNode p a b) = ''('' @ unparse_ExpNode (OrNode p a b) 0 @ '')''
   \<and> unparseNested (EqualsNode p a b) = ''('' @ unparse_ExpNode (EqualsNode p a b) 0 @ '')''
   \<and> unparseNested (NotEqualsNode p a b) = ''('' @ unparse_ExpNode (NotEqualsNode p a b) 0 @ '')''
   \<and> unparseNested (LessNode p a b) = ''('' @ unparse_ExpNode (LessNode p a b) 0 @ '')''
   \<and> unparseNested (LessEqNode p a b) = ''('' @ unparse_ExpNode (LessEqNode p a b) 0 @ '')''
   \<and> unparseNested (GreaterNode p a b) = ''('' @ unparse_ExpNode (GreaterNode p a b) 0 @ '')''
   \<and> unparseNested (GreaterEqNode p a b) = ''('' @ unparse_ExpNode (GreaterEqNode p a b) 0 @ '')''
   \<and> unparseNested (NegNode p a) = ''('' @ unparse_ExpNode (NegNode p a) 0 @ '')''
   \<and> unparseNested (NotNode p a) = ''('' @ unparse_ExpNode (NotNode p a) 0 @ '')''
   \<and> unparse_ExpNode (PlusNode p a b) indent =
       replicate (nat indent) (CHR 0x09) @ unparseNested a @ '' + '' @ unparseNested b
   \<and> unparse_ExpNode (MinusNode p a b) indent =
       replicate (nat indent) (CHR 0x09) @ unparseNested a @ '' - '' @ unparseNested b
   \<and> unparse_ExpNode (TimesNode p a b) indent =
       replicate (nat indent) (CHR 0x09) @ unparseNested a @ '' * '' @ unparseNested b
   \<and> unparse_ExpNode (DivideNode p a b) indent =
       replicate (nat indent) (CHR 0x09) @ unparseNested a @ '' / '' @ unparseNested b
   \<and> unparse_ExpNode (AndNode p a b) indent =
       replicate (nat indent) (CHR 0x09) @ unparseNested a @ '' and '' @ unparseNested b
   \<and> unparse_ExpNode (OrNode p a b) indent =
       replicate (nat indent) (CHR 0x09) @ unparseNested a @ '' or '' @ unparseNested b
   \<and> unparse_ExpNode (EqualsNode p a b) indent =
       replicate (nat indent) (CHR 0x09) @ unparseNested a @ '' == '' @ unparseNested b
   \<and> unparse_ExpNode (NotEqualsNode p a b) indent =
       replicate (nat indent) (CHR 0x09) @ unparseNested a @ '' != '' @ unparseNested b
   \<and> unparse_ExpNode (LessNode p a b) indent =
       replicate (nat indent) (CHR 0x09) @ unparseNested a @ '' < '' @ unparseNested b
   \<and> unparse_ExpNode (LessEqNode p a b) indent =
       replicate (nat indent) (CHR 0x09) @ unparseNested a @ '' <= '' @ unparseNested b
   \<and> unparse_ExpNode (GreaterNode p a b) indent =
       replicate (nat indent) (CHR 0x09) @ unparseNested a @ '' > '' @ unparseNested b
   \<and> unparse_ExpNode (GreaterEqNode p a b) indent =
       replicate (nat indent) (CHR 0x09) @ unparseNested a @ '' >= '' @ unparseNested b
   \<and> unparse_ExpNode (PlusNode p a b) 0 = unparseNested a @ '' + '' @ unparseNested b
   \<and> unparseNested (IntLitNode p n) = show_int n
   \<and> unparseNested (StrLitNode p s) = s
   \<and> unparseNested (TrueNode p) = ''true''
   \<and> unparseNested (FalseNode p) = ''false''
   \<and> unparseNested (EhNode p) = ''eh?''"
  by (simp add: doIndent_def)

text \<open>
  Claim C10. Whatever the initializer field of a \<open>VarDeclNode\<close> holds, \<open>unparse\<close>
  writes the \<open>indent\<close> tabs of \<open>doIndent\<close> (none at indentation \<open>0\<close>), the identifier,
  a colon and a space, the rendering of the type, and a semicolon and a newline; the
  initializer is never written.
\<close>

theorem C10_initializer_not_rendered:
  "unparse_DeclNode (VarDeclNode p (IDNode q name) myType myInit) indent =
     replicate (nat indent) (CHR 0x09) @ name @ '': '' @ unparse_TypeNode myType 0
       @ [CHR '';'', CHR 0x0A]
   \<and> unparse_DeclNode (VarDeclNode p (IDNode q name) myType myInit) 0 =
     name @ '': '' @ unparse_TypeNode myType 0 @ [CHR '';'', CHR 0x0A]
   \<and> unparse_DeclNode (VarDeclNode p (IDNode q name) myType myInit) indent =
     unparse_DeclNode (VarDeclNode p (IDNode q name) myType None) indent"
  by (simp add: doIndent_def)

section \<open>Properties of the parser\<close>

text \<open>
  Claim C1 says that parsing a valid program, rendering the tree and parsing the text again
  gives a tree of the same shape. The code does not get as far as the first tree: for the
  valid program \<^verbatim>\<open>f : () -> void { }\<close> the action of \<open>decl : fnDecl\<close> is empty, the
  list of globals holds a null pointer, and the constructor of \<open>ProgramNode\<close> calls
  \<open>pos()\<close> through it.
\<close>

theorem C1_function_declaration_yields_no_tree:
  "parse [IDToken (Position4 1 1 1 2) ''f'', Token S_COLON (Position4 1 3 1 4),
          Token S_LPAREN (Position4 1 5 1 6), Token S_RPAREN (Position4 1 6 1 7),
          Token S_ARROW (Position4 1 8 1 10), Token S_VOID (Position4 1 11 1 15),
          Token S_LCURLY (Position4 1 16 1 17), Token S_RCURLY (Position4 1 18 1 19)]
     = \<lparr>outcome = Abort NullPointerDereference, root = None, cerr = []\<rparr>"
  by (simp add: parser_simps)

text \<open>
  Claim C2 says that \<^verbatim>\<open>2 + 3 * 4\<close> parses to \<open>Plus(IntLit(2), Times(IntLit(3), IntLit(4)))\<close>
  and \<^verbatim>\<open>!a * b\<close> to \<open>Times(Not(a), b)\<close>. The precedence table decides as the claim
  says (with \<open>exp CROSS exp\<close> pending a \<open>STAR\<close> is shifted; with \<open>exp STAR exp\<close> or
  \<open>NOT exp\<close> pending the rule is reduced first), and the declarations
  \<^verbatim>\<open>x : int = 2 + 3 * 4;\<close> and \<^verbatim>\<open>y : bool = !a * b;\<close> are recognised. But the actions
  of all productions of \<open>exp\<close> are empty: no node is built for the expression, the
  declaration itself is a null pointer, and the parse ends in the constructor of
  \<open>ProgramNode\<close>.
\<close>

theorem C2_expression_builds_no_node:
  "resolve S_CROSS S_STAR = Shift \<and> resolve S_STAR S_CROSS = Reduce
   \<and> resolve S_NOT S_STAR = Reduce
   \<and> parse_decl 10 [IDToken (Position4 1 1 1 2) ''x'', Token S_COLON (Position4 1 2 1 3),
          Token S_INT (Position4 1 4 1 7), Token S_ASSIGN (Position4 1 8 1 9),
          IntLitToken (Position4 1 10 1 11) 2, Token S_CROSS (Position4 1 12 1 13),
          IntLitToken (Position4 1 14 1 15) 3, Token S_STAR (Position4 1 16 1 17),
          IntLitToken (Position4 1 18 1 19) 4, Token S_SEMICOL (Position4 1 19 1 20)]
       = Ok (None, [])
   \<and> parse [IDToken (Position4 1 1 1 2) ''x'', Token S_COLON (Position4 1 2 1 3),
          Token S_INT (Position4 1 4 1 7), Token S_ASSIGN (Position4 1 8 1 9),
          IntLitToken (Position4 1 10 1 11) 2, Token S_CROSS (Position4 1 12 1 13),
          IntLitToken (Position4 1 14 1 15) 3, Token S_STAR (Position4 1 16 1 17),
          IntLitToken (Position4 1 18 1 19) 4, Token S_SEMICOL (Position4 1 19 1 20)]
       = \<lparr>outcome = Abort NullPointerDereference, root = None, cerr = []\<rparr>
   \<and> parse [IDToken (Position4 1 1 1 2) ''y'', Token S_COLON (Position4 1 2 1 3),
          Token S_BOOL (Position4 1 4 1 8), Token S_ASSIGN (Position4 1 9 1 10),
          Token S_NOT (Position4 1 11 1 12), IDToken (Position4 1 12 1 13) ''a'',
          Token S_STAR (Position4 1 14 1 15), IDToken (Position4 1 16 1 17) ''b'',
          Token S_SEMICOL (Position4 1 17 1 18)]
       = \<lparr>outcome = Abort NullPointerDereference, root = None, cerr = []\<rparr>"
  by (simp add: parser_simps)




text \<open>
  Claim C4 says that \<^verbatim>\<open>x: int;\<close> parses to a \<open>VarDecl\<close> without initializer and
  \<^verbatim>\<open>x: int = 5;\<close> to a \<open>VarDecl\<close> whose initializer is \<open>IntLit(5)\<close>. The first half
  holds. For the second input the action of \<open>varDecl : name COLON type ASSIGN exp\<close> is
  empty: the declaration is recognised, its value is a null pointer, and the parse ends in
  the constructor of \<open>ProgramNode\<close>.
\<close>

theorem C4_initializer_declaration:
  "parse [IDToken (Position4 1 1 1 2) ''x'', Token S_COLON (Position4 1 2 1 3),
          Token S_INT (Position4 1 4 1 7), Token S_SEMICOL (Position4 1 7 1 8)]
     = \<lparr>outcome = Return 0,
        root = Some \<lparr>myPos = Position4 1 1 1 3,
          myGlobals = [Some (VarDeclNode (Position4 1 1 1 3) (IDNode (Position4 1 1 1 2) ''x'')
                               (IntTypeNode (Position4 1 4 1 7)) None)]\<rparr>,
        cerr = []\<rparr>
   \<and> parse_decl 6 [IDToken (Position4 1 1 1 2) ''x'', Token S_COLON (Position4 1 2 1 3),
          Token S_INT (Position4 1 4 1 7), Token S_ASSIGN (Position4 1 8 1 9),
          IntLitToken (Position4 1 10 1 11) 5, Token S_SEMICOL (Position4 1 11 1 12)]
     = Ok (None, [])
   \<and> parse [IDToken (Position4 1 1 1 2) ''x'', Token S_COLON (Position4 1 2 1 3),
          Token S_INT (Position4 1 4 1 7), Token S_ASSIGN (Position4 1 8 1 9),
          IntLitToken (Position4 1 10 1 11) 5, Token S_SEMICOL (Position4 1 11 1 12)]
     = \<lparr>outcome = Abort NullPointerDereference, root = None, cerr = []\<rparr>"
  by (simp add: parser_simps)

text \<open>
  Claim C5 says that the position of a composite node spans its first to its last
  constituent, so that the position of a \<open>VarDecl\<close> built from \<open>name : type\<close> ends where
  the type ends. The action merges the positions of \<open>$1\<close> and \<open>$2\<close>, the name and the
  colon: for \<^verbatim>\<open>x: int;\<close> with \<open>x\<close> at columns 1 to 2, the colon at 2 to 3 and \<open>int\<close> at
  4 to 7, the node's position ends at column 3, not at column 7.
\<close>

theorem C5_varDecl_position_ends_at_colon:
  "parse_varDecl n [IDToken pn x, Token S_COLON pc, Token S_INT pt, Token S_SEMICOL ps]
     = Ok (Some (VarDeclNode (Position2 pn pc) (IDNode pn x) (IntTypeNode pt) None),
           [Token S_SEMICOL ps])
   \<and> parse [IDToken (Position4 1 1 1 2) ''x'', Token S_COLON (Position4 1 2 1 3),
          Token S_INT (Position4 1 4 1 7), Token S_SEMICOL (Position4 1 7 1 8)]
     = \<lparr>outcome = Return 0,
        root = Some \<lparr>myPos = Position4 1 1 1 3,
          myGlobals = [Some (VarDeclNode (Position4 1 1 1 3) (IDNode (Position4 1 1 1 2) ''x'')
                               (IntTypeNode (Position4 1 4 1 7)) None)]\<rparr>,
        cerr = []\<rparr>
   \<and> Position4 1 1 1 3 \<noteq> Position2 (Position4 1 1 1 2) (Position4 1 4 1 7)"
  by (simp add: parser_simps)

text \<open>
  Claim C6 says that the empty program yields a \<open>ProgramNode\<close> with an empty list and the
  position \<open>(0,0,0,0)\<close>, and that the position of a non-empty program is the merge of the
  positions of its first and last declaration. The first half holds. The constructor does
  merge the positions of the first and the last element when both are nodes, so the second
  half holds for every program of declarations \<^verbatim>\<open>name : int ;\<close> and
  \<^verbatim>\<open>name : bool ;\<close>, such as \<^verbatim>\<open>x : int; y : bool;\<close>. But the actions of
  \<open>decl : classTypeDecl\<close>,
  \<open>decl : fnDecl\<close> and of the \<open>varDecl\<close> with an initializer are empty, so for a
  program that starts or ends with one of these declarations the first or last element is a
  null pointer and the constructor calls \<open>pos()\<close> through it: for the valid program
  \<^verbatim>\<open>x : int; c : custom { };\<close> no \<open>ProgramNode\<close> is built.
\<close>

theorem C6_null_declaration_ends_construction:
  "parse [] = \<lparr>outcome = Return 0,
                 root = Some \<lparr>myPos = Position4 0 0 0 0, myGlobals = []\<rparr>, cerr = []\<rparr>
   \<and> ProgramNode_ctor (Some front # gs @ [Some back])
       = Ok \<lparr>myPos = Position2 (pos_DeclNode front) (pos_DeclNode back),
             myGlobals = Some front # gs @ [Some back]\<rparr>
   \<and> ProgramNode_ctor [Some d]
       = Ok \<lparr>myPos = Position2 (pos_DeclNode d) (pos_DeclNode d), myGlobals = [Some d]\<rparr>
   \<and> ProgramNode_ctor (None # gs) = Failure NullPointerDereference
   \<and> ProgramNode_ctor (gs @ [None]) = Failure NullPointerDereference
   \<and> parse (program_tokens ds)
     = \<lparr>outcome = Return 0,
        root = Some \<lparr>myPos = (if ds = [] then Position4 0 0 0 0
                              else Position2 (pos_DeclNode (decl_node (hd ds)))
                                     (pos_DeclNode (decl_node (last ds)))),
                     myGlobals = map (\<lambda>d. Some (decl_node d)) ds\<rparr>,
        cerr = []\<rparr>
   \<and> parse [IDToken (Position4 1 1 1 2) ''x'', Token S_COLON (Position4 1 2 1 3),
          Token S_INT (Position4 1 4 1 7), Token S_SEMICOL (Position4 1 7 1 8),
          IDToken (Position4 2 1 2 2) ''y'', Token S_COLON (Position4 2 2 2 3),
          Token S_BOOL (Position4 2 4 2 8), Token S_SEMICOL (Position4 2 8 2 9)]
     = \<lparr>outcome = Return 0,
        root = Some \<lparr>myPos = Position4 1 1 2 3,
          myGlobals = [Some (VarDeclNode (Position4 1 1 1 3) (IDNode (Position4 1 1 1 2) ''x'')
                               (IntTypeNode (Position4 1 4 1 7)) None),
                       Some (VarDeclNode (Position4 2 1 2 3) (IDNode (Position4 2 1 2 2) ''y'')
                               (BoolTypeNode (Position4 2 4 2 8)) None)]\<rparr>,
        cerr = []\<rparr>
   \<and> parse_globals 10 []
         [IDToken (Position4 1 1 1 2) ''x'', Token S_COLON (Position4 1 2 1 3),
          Token S_INT (Position4 1 4 1 7), Token S_SEMICOL (Position4 1 7 1 8),
          IDToken (Position4 2 1 2 2) ''c'', Token S_COLON (Position4 2 2 2 3),
          Token S_CUSTOM (Position4 2 4 2 10), Token S_LCURLY (Position4 2 11 2 12),
          Token S_RCURLY (Position4 2 13 2 14), Token S_SEMICOL (Position4 2 14 2 15)]
     = Ok ([Some (VarDeclNode (Position4 1 1 1 3) (IDNode (Position4 1 1 1 2) ''x'')
                               (IntTypeNode (Position4 1 4 1 7)) None), None], [])
   \<and> parse [IDToken (Position4 1 1 1 2) ''x'', Token S_COLON (Position4 1 2 1 3),
          Token S_INT (Position4 1 4 1 7), Token S_SEMICOL (Position4 1 7 1 8),
          IDToken (Position4 2 1 2 2) ''c'', Token S_COLON (Position4 2 2 2 3),
          Token S_CUSTOM (Position4 2 4 2 10), Token S_LCURLY (Position4 2 11 2 12),
          Token S_RCURLY (Position4 2 13 2 14), Token S_SEMICOL (Position4 2 14 2 15)]
     = \<lparr>outcome = Abort NullPointerDereference, root = None, cerr = []\<rparr>"
proof -
  have "ProgramNode_ctor (gs @ [None]) = Failure NullPointerDereference"
    by (cases "hd (gs @ [None])") (auto simp: ProgramNode_ctor_def)
  moreover have "parse (program_tokens ds)
     = \<lparr>outcome = Return 0,
        root = Some \<lparr>myPos = (if ds = [] then Position4 0 0 0 0
                              else Position2 (pos_DeclNode (decl_node (hd ds)))
                                     (pos_DeclNode (decl_node (last ds)))),
                     myGlobals = map (\<lambda>d. Some (decl_node d)) ds\<rparr>,
        cerr = []\<rparr>"
    using parse_plain [of "[]" ds] by (simp add: program_node_def)
  ultimately show ?thesis
    by (simp add: parser_simps)
qed

text \<open>
  Claim C7, amended. Whenever the parser returns, it returns 0 or 1: 0 only with the root
  assigned and nothing written by \<open>Parser::error\<close>, and 1 only after \<open>Parser::error\<close>
  has written the syntax error message, once; the first syntax error ends the parse. The
  root is assigned exactly when the action of
  \<open>program : globals\<close> completes, that is when the global declarations have been read up
  to a token that is not an identifier and the \<open>ProgramNode\<close> is constructed; the
  parser then returns 0 if that token is the end of the input, and otherwise reports the
  syntax error and returns 1 with the root still assigned. A syntax error inside a global
  declaration leaves the root unassigned. In particular, after any sequence of declarations
  \<^verbatim>\<open>name : int ;\<close> and \<^verbatim>\<open>name : bool ;\<close>: the end of the input gives 0 and the
  root; any other token that is not an identifier gives the message, 1, and the root
  assigned to the \<open>ProgramNode\<close> of these declarations; and an identifier that is not
  followed by a colon gives the message, 1, and no root.
\<close>

theorem C7_parse_result:
  "(outcome (parse toks) = Return v \<longrightarrow> v = 0 \<or> v = 1)
   \<and> (outcome (parse toks) = Return 0 \<longrightarrow>
        (\<exists>prog. root (parse toks) = Some prog) \<and> cerr (parse toks) = [])
   \<and> (outcome (parse toks) = Return 1 \<longrightarrow> cerr (parse toks) = ''syntax error'' @ [CHR 0x0A])
   \<and> (root (parse toks) = Some prog \<longleftrightarrow>
        (\<exists>globals rest. parse_globals (length toks) [] toks = Ok (globals, rest)
           \<and> \<not> starts_with_ID rest \<and> ProgramNode_ctor globals = Ok prog))
   \<and> (parse_globals (length toks) [] toks = Ok (globals, rest)
        \<and> ProgramNode_ctor globals = Ok prog \<longrightarrow>
        parse toks = \<lparr>outcome = Return (if rest = [] then 0 else 1), root = Some prog,
                       cerr = (if rest = [] then [] else ''syntax error'' @ [CHR 0x0A])\<rparr>)
   \<and> (parse_globals (length toks) [] toks = Failure SyntaxError \<longrightarrow>
        parse toks = \<lparr>outcome = Return 1, root = None, cerr = ''syntax error'' @ [CHR 0x0A]\<rparr>)
   \<and> (\<not> starts_with_ID follow \<longrightarrow>
        parse (program_tokens ds @ follow)
          = \<lparr>outcome = Return (if follow = [] then 0 else 1), root = Some (program_node ds),
             cerr = (if follow = [] then [] else ''syntax error'' @ [CHR 0x0A])\<rparr>)
   \<and> (\<not> starts_with S_COLON follow \<longrightarrow>
        parse (program_tokens ds @ IDToken p x # follow)
          = \<lparr>outcome = Return 1, root = None, cerr = ''syntax error'' @ [CHR 0x0A]\<rparr>)"
proof -
  have a: "outcome (parse toks) = Return v \<longrightarrow> v = 0 \<or> v = 1"
    by (auto simp: parse_def split: result.splits if_splits prod.splits)
  have b: "outcome (parse toks) = Return 0 \<longrightarrow>
        (\<exists>prog. root (parse toks) = Some prog) \<and> cerr (parse toks) = []"
    by (auto simp: parse_def split: result.splits if_splits prod.splits)
  have c: "outcome (parse toks) = Return 1 \<longrightarrow> cerr (parse toks) = ''syntax error'' @ [CHR 0x0A]"
    by (auto simp: parse_def split: result.splits if_splits prod.splits)
  have d: "root (parse toks) = Some prog \<longleftrightarrow>
        (\<exists>globals rest. parse_globals (length toks) [] toks = Ok (globals, rest)
           \<and> \<not> starts_with_ID rest \<and> ProgramNode_ctor globals = Ok prog)"
    by (auto simp: parse_def split: result.splits if_splits prod.splits dest: globals_stops_at)
  have e: "parse_globals (length toks) [] toks = Ok (globals, rest)
        \<and> ProgramNode_ctor globals = Ok prog \<longrightarrow>
        parse toks = \<lparr>outcome = Return (if rest = [] then 0 else 1), root = Some prog,
                       cerr = (if rest = [] then [] else ''syntax error'' @ [CHR 0x0A])\<rparr>"
    by (auto simp: parse_def)
  have f: "parse_globals (length toks) [] toks = Failure SyntaxError \<longrightarrow>
        parse toks = \<lparr>outcome = Return 1, root = None, cerr = ''syntax error'' @ [CHR 0x0A]\<rparr>"
    by (auto simp: parse_def)
  have g: "\<not> starts_with_ID follow \<longrightarrow>
        parse (program_tokens ds @ follow)
          = \<lparr>outcome = Return (if follow = [] then 0 else 1), root = Some (program_node ds),
             cerr = (if follow = [] then [] else ''syntax error'' @ [CHR 0x0A])\<rparr>"
    using parse_plain [of follow ds] by blast
  have h: "\<not> starts_with S_COLON follow \<longrightarrow>
        parse (program_tokens ds @ IDToken p x # follow)
          = \<lparr>outcome = Return 1, root = None, cerr = ''syntax error'' @ [CHR 0x0A]\<rparr>"
  proof
    assume "\<not> starts_with S_COLON follow"
    then show "parse (program_tokens ds @ IDToken p x # follow)
          = \<lparr>outcome = Return 1, root = None, cerr = ''syntax error'' @ [CHR 0x0A]\<rparr>"
      by (intro parse_plain_then_failure decl_without_colon) auto
  qed
  from a b c d e f g h show ?thesis by blast
qed

theorem C7_parse_result_witness:
  "\<not> starts_with_ID [Token S_SEMICOL (Position4 1 8 1 9)]
   \<and> parse [IDToken (Position4 1 1 1 2) ''x'', Token S_COLON (Position4 1 2 1 3),
          Token S_INT (Position4 1 4 1 7), Token S_SEMICOL (Position4 1 7 1 8),
          Token S_SEMICOL (Position4 1 8 1 9)]
     = \<lparr>outcome = Return 1,
        root = Some \<lparr>myPos = Position4 1 1 1 3,
          myGlobals = [Some (VarDeclNode (Position4 1 1 1 3) (IDNode (Position4 1 1 1 2) ''x'')
                               (IntTypeNode (Position4 1 4 1 7)) None)]\<rparr>,
        cerr = ''syntax error'' @ [CHR 0x0A]\<rparr>
   \<and> \<not> starts_with_ID []
   \<and> parse [IDToken (Position4 1 1 1 2) ''x'', Token S_COLON (Position4 1 2 1 3),
          Token S_INT (Position4 1 4 1 7), Token S_SEMICOL (Position4 1 7 1 8)]
     = \<lparr>outcome = Return 0,
        root = Some \<lparr>myPos = Position4 1 1 1 3,
          myGlobals = [Some (VarDeclNode (Position4 1 1 1 3) (IDNode (Position4 1 1 1 2) ''x'')
                               (IntTypeNode (Position4 1 4 1 7)) None)]\<rparr>,
        cerr = []\<rparr>
   \<and> \<not> starts_with S_COLON [Token S_SEMICOL (Position4 2 2 2 3)]
   \<and> parse [IDToken (Position4 1 1 1 2) ''x'', Token S_COLON (Position4 1 2 1 3),
          Token S_INT (Position4 1 4 1 7), Token S_SEMICOL (Position4 1 7 1 8),
          IDToken (Position4 2 1 2 2) ''y'', Token S_SEMICOL (Position4 2 2 2 3)]
     = \<lparr>outcome = Return 1, root = None, cerr = ''syntax error'' @ [CHR 0x0A]\<rparr>"
  using C7_parse_result [where ds = "[PlainDecl (Position4 1 1 1 2) ''x'' (Position4 1 2 1 3)
                                        IntType (Position4 1 4 1 7) (Position4 1 7 1 8)]"
      and follow = "[Token S_SEMICOL (Position4 1 8 1 9)]"]
    C7_parse_result [where ds = "[PlainDecl (Position4 1 1 1 2) ''x'' (Position4 1 2 1 3)
                                        IntType (Position4 1 4 1 7) (Position4 1 7 1 8)]"
      and follow = "[]"]
    C7_parse_result [where ds = "[PlainDecl (Position4 1 1 1 2) ''x'' (Position4 1 2 1 3)
                                        IntType (Position4 1 4 1 7) (Position4 1 7 1 8)]"
      and follow = "[Token S_SEMICOL (Position4 2 2 2 3)]"
      and p = "Position4 2 1 2 2" and x = "''y''"]
  by (simp add: program_tokens_def program_node_def Position2_def Position4_def)

text \<open>
  Claim C7 as stated says the root is assigned only when parsing succeeds. For the input
  \<^verbatim>\<open>;\<close> the state after \<open>globals\<close> reduces \<open>program : globals\<close> on the lookahead
  \<open>SEMICOL\<close>, its default reduction, and the action assigns the root; only then does the
  parser find no action for the token, report the syntax error and return 1.
\<close>

theorem C7_root_assigned_before_error:
  "outcome (parse [Token S_SEMICOL (Position4 1 1 1 2)]) = Return 1
   \<and> root (parse [Token S_SEMICOL (Position4 1 1 1 2)])
       = Some \<lparr>myPos = Position4 0 0 0 0, myGlobals = []\<rparr>"
  by (simp add: parser_simps)

end
